theory Spec2Isabelle
  imports Complex_Main "HOL-Library.Word" "HOL-Library.Log_Nat"
begin

section \<open>Strings and numbers of the host language\<close>

text \<open>
  The controller \<^verbatim>\<open>frontend/app.js\<close> runs in a browser. Its strings are sequences of
  16-bit code units, its numbers are binary64 floating-point values. A finite number is
  carried by its exact rational value; \<open>round_double\<close> rounds the exact result of an
  arithmetic operation or of a decimal literal to the nearest binary64 value (ties to
  even, overflow to infinity, gradual underflow).
\<close>

type_synonym code_unit = "16 word"
type_synonym jsstring = "code_unit list"

definition ascii :: "string \<Rightarrow> jsstring" where
  "ascii = map of_char"

datatype jsnum = NaN | PosInf | NegInf | NegZero | Fin rat

definition ilog2 :: "rat \<Rightarrow> int" where
  \<comment> \<open>for \<open>0 < a\<close>: the exponent \<open>e\<close> with \<open>2^e \<le> a < 2^(e+1)\<close>\<close>
  "ilog2 a = (if 1 \<le> a then int (floorlog 2 (nat \<lfloor>a\<rfloor>)) - 1
              else - int (floorlog 2 (nat (\<lceil>1 / a\<rceil> - 1))))"

definition round_half_even :: "rat \<Rightarrow> int" where
  "round_half_even q =
     (let f = \<lfloor>q\<rfloor>; d = q - of_int f
      in if d < 1 / 2 then f else if 1 / 2 < d then f + 1 else if even f then f else f + 1)"

definition signed_zero :: "bool \<Rightarrow> jsnum" where
  "signed_zero neg = (if neg then NegZero else Fin 0)"

definition signed_inf :: "bool \<Rightarrow> jsnum" where
  "signed_inf neg = (if neg then NegInf else PosInf)"

definition round_double :: "bool \<Rightarrow> rat \<Rightarrow> jsnum" where
  \<comment> \<open>the binary64 value nearest to the magnitude \<open>a \<ge> 0\<close>, with the sign \<open>neg\<close>\<close>
  "round_double neg a =
     (let e = max (ilog2 a) (- 1022);
          u = 2 powi (e - 52);
          r = of_int (round_half_even (a / u)) * u
      in if a = 0 \<or> r = 0 then signed_zero neg
         else if 2 ^ 1024 \<le> r then signed_inf neg
         else Fin (if neg then - r else r))"

fun sign_bit :: "jsnum \<Rightarrow> bool" where
  "sign_bit NaN = False"
| "sign_bit PosInf = False"
| "sign_bit NegInf = True"
| "sign_bit NegZero = True"
| "sign_bit (Fin r) = (r < 0)"

fun magnitude :: "jsnum \<Rightarrow> rat" where
  "magnitude (Fin r) = \<bar>r\<bar>"
| "magnitude _ = 0"

definition is_inf :: "jsnum \<Rightarrow> bool" where
  "is_inf x = (x = PosInf \<or> x = NegInf)"

definition is_zero :: "jsnum \<Rightarrow> bool" where
  "is_zero x = (x = Fin 0 \<or> x = NegZero)"

definition js_mul :: "jsnum \<Rightarrow> jsnum \<Rightarrow> jsnum" where
  \<comment> \<open>the operator \<^verbatim>\<open>*\<close> on two numbers\<close>
  "js_mul x y =
     (if x = NaN \<or> y = NaN then NaN
      else if is_inf x \<or> is_inf y then
        (if is_zero x \<or> is_zero y then NaN else signed_inf (sign_bit x \<noteq> sign_bit y))
      else round_double (sign_bit x \<noteq> sign_bit y) (magnitude x * magnitude y))"

definition js_div :: "jsnum \<Rightarrow> jsnum \<Rightarrow> jsnum" where
  \<comment> \<open>the operator \<^verbatim>\<open>/\<close> on two numbers\<close>
  "js_div x y =
     (if x = NaN \<or> y = NaN then NaN
      else if is_inf x then (if is_inf y then NaN else signed_inf (sign_bit x \<noteq> sign_bit y))
      else if is_inf y then signed_zero (sign_bit x \<noteq> sign_bit y)
      else if is_zero y then
        (if is_zero x then NaN else signed_inf (sign_bit x \<noteq> sign_bit y))
      else round_double (sign_bit x \<noteq> sign_bit y) (magnitude x / magnitude y))"

definition Math_round :: "jsnum \<Rightarrow> jsnum" where
  \<comment> \<open>\<^verbatim>\<open>Math.round\<close>: the nearest integer, a tie going up; \<open>-0\<close> for \<open>-0.5 \<le> x < 0\<close>\<close>
  "Math_round x =
     (case x of
        Fin r \<Rightarrow> if r < 0 \<and> - (1 / 2) \<le> r then NegZero else Fin (of_int \<lfloor>r + 1 / 2\<rfloor>)
      | _ \<Rightarrow> x)"

subsection \<open>Decimal digits\<close>

definition digit_char :: "nat \<Rightarrow> code_unit" where
  "digit_char d = of_nat (48 + d)"

fun decimal :: "nat \<Rightarrow> jsstring" where
  "decimal n = (if n < 10 then [digit_char n] else decimal (n div 10) @ [digit_char (n mod 10)])"

declare decimal.simps [simp del]

definition is_digit :: "code_unit \<Rightarrow> bool" where
  "is_digit c = (0x30 \<le> c \<and> c \<le> 0x39)"

definition digits_value :: "jsstring \<Rightarrow> nat" where
  "digits_value ds = foldl (\<lambda>a c. 10 * a + (unat c - 48)) 0 ds"

definition decimal_literal :: "bool \<Rightarrow> jsstring \<Rightarrow> jsstring \<Rightarrow> int \<Rightarrow> jsnum" where
  \<comment> \<open>the number written sign, integer digits, fraction digits, power of ten\<close>
  "decimal_literal neg ip fp ex =
     round_double neg (of_nat (digits_value (ip @ fp)) * 10 powi (ex - int (length fp)))"


subsection \<open>Values, errors and the parts of the host left open\<close>

datatype jsval =
    Undefined
  | Null
  | Bool bool
  | Num jsnum
  | Str jsstring
  | Arr "jsval list"
  | Obj "(jsstring \<times> jsval) list"

text \<open>
  An object is the list of its own properties in the order in which the host enumerates
  them. Only values that \<^verbatim>\<open>JSON.parse\<close> can build (and \<open>Undefined\<close>) occur: no functions,
  no accessors, no holes in arrays.
\<close>

datatype js_error =
    TypeError
  | RangeError
  | SyntaxError
  | NetworkError
  | HttpError nat

text \<open>
  What the program asks of the host and this development does not compute is a field of
  \<open>host\<close>, so every theorem below holds whatever the host answers:
  the shortest round-trip digits of a number (\<^verbatim>\<open>Number::toString\<close>), the locale's number
  format (\<^verbatim>\<open>toLocaleString()\<close> with no arguments), the conversion of an array or an object
  to a number, and the text \<^verbatim>\<open>JSON.stringify(v, null, 2)\<close> of a value other than
  \<^verbatim>\<open>undefined\<close>.
\<close>

record host =
  numberToString :: "jsnum \<Rightarrow> jsstring"
  toLocaleString :: "jsnum \<Rightarrow> jsstring"
  objectToNumber :: "jsval \<Rightarrow> js_error + jsnum"
  JSON_stringify :: "jsval \<Rightarrow> jsstring"

fun ToBoolean :: "jsval \<Rightarrow> bool" where
  "ToBoolean Undefined = False"
| "ToBoolean Null = False"
| "ToBoolean (Bool b) = b"
| "ToBoolean (Num n) = (n \<noteq> NaN \<and> n \<noteq> Fin 0 \<and> n \<noteq> NegZero)"
| "ToBoolean (Str s) = (s \<noteq> [])"
| "ToBoolean (Arr xs) = True"
| "ToBoolean (Obj ms) = True"

subsection \<open>\<^verbatim>\<open>Number.prototype.toFixed\<close>\<close>

definition fixed_digits :: "nat \<Rightarrow> nat \<Rightarrow> jsstring" where
  \<comment> \<open>the digits of \<open>n\<close>, padded to \<open>f + 1\<close> digits, with a point before the last \<open>f\<close>\<close>
  "fixed_digits f n =
     (let m = decimal n;
          m' = replicate (Suc f - length m) (digit_char 0) @ m;
          k = length m'
      in if f = 0 then m else take (k - f) m' @ ascii ''.'' @ drop (k - f) m')"

definition toFixed :: "host \<Rightarrow> nat \<Rightarrow> jsnum \<Rightarrow> jsstring" where
  \<comment> \<open>\<^verbatim>\<open>x.toFixed(f)\<close> for \<open>f \<le> 100\<close>: the integer \<open>n\<close> nearest to \<open>x * 10^f\<close>, the larger
      one of two\<close>
  "toFixed h f x =
     (case x of
        NaN \<Rightarrow> ascii ''NaN''
      | PosInf \<Rightarrow> ascii ''Infinity''
      | NegInf \<Rightarrow> ascii ''-Infinity''
      | NegZero \<Rightarrow> fixed_digits f 0
      | Fin r \<Rightarrow>
          (if r < 0 then ascii ''-'' else []) @
          (if 10 ^ 21 \<le> \<bar>r\<bar> then numberToString h (Fin \<bar>r\<bar>)
           else fixed_digits f (nat \<lfloor>\<bar>r\<bar> * 10 ^ f + 1 / 2\<rfloor>)))"

subsection \<open>\<^verbatim>\<open>String.prototype.trim\<close>\<close>

definition is_white_space :: "code_unit \<Rightarrow> bool" where
  \<comment> \<open>WhiteSpace and LineTerminator of the language: what \<^verbatim>\<open>trim\<close> strips\<close>
  "is_white_space c =
     (c = 0x09 \<or> c = 0x0A \<or> c = 0x0B \<or> c = 0x0C \<or> c = 0x0D \<or> c = 0x20 \<or> c = 0xA0 \<or>
      c = 0x1680 \<or> (0x2000 \<le> c \<and> c \<le> 0x200A) \<or> c = 0x2028 \<or> c = 0x2029 \<or>
      c = 0x202F \<or> c = 0x205F \<or> c = 0x3000 \<or> c = 0xFEFF)"

definition trim :: "jsstring \<Rightarrow> jsstring" where
  "trim s = rev (dropWhile is_white_space (rev (dropWhile is_white_space s)))"

section \<open>\<^verbatim>\<open>JSON.parse\<close>\<close>

text \<open>
  The JSON grammar of ECMA-404, as \<^verbatim>\<open>JSON.parse\<close> and \<^verbatim>\<open>Response.json()\<close> read it: the
  text is cut into tokens, with JSON white space (space, tab, line feed, carriage return)
  allowed between any two, and the tokens must spell exactly one value.
\<close>

datatype token =
    LBracket | RBracket | LBrace | RBrace | Colon | Comma
  | TNull | TTrue | TFalse
  | TNum jsnum
  | TStr jsstring

definition json_ws :: "code_unit \<Rightarrow> bool" where
  "json_ws c = (c = 0x20 \<or> c = 0x09 \<or> c = 0x0A \<or> c = 0x0D)"

definition is_hex :: "code_unit \<Rightarrow> bool" where
  "is_hex c = (is_digit c \<or> (0x41 \<le> c \<and> c \<le> 0x46) \<or> (0x61 \<le> c \<and> c \<le> 0x66))"

definition hex_value :: "code_unit \<Rightarrow> nat" where
  "hex_value c =
     (if is_digit c then unat c - 48 else if c \<le> 0x46 then unat c - 55 else unat c - 87)"

definition escape_char :: "code_unit \<Rightarrow> code_unit option" where
  \<comment> \<open>the character after a backslash, other than \<^verbatim>\<open>u\<close>\<close>
  "escape_char e =
     (if e = 0x22 \<or> e = 0x5C \<or> e = 0x2F then Some e
      else if e = of_char (CHR ''b'') then Some 0x08
      else if e = of_char (CHR ''f'') then Some 0x0C
      else if e = of_char (CHR ''n'') then Some 0x0A
      else if e = of_char (CHR ''r'') then Some 0x0D
      else if e = of_char (CHR ''t'') then Some 0x09
      else None)"

definition radix_value :: "nat \<Rightarrow> jsstring \<Rightarrow> nat" where
  "radix_value b ds = foldl (\<lambda>a c. b * a + hex_value c) 0 ds"

fun scan_string :: "jsstring \<Rightarrow> (jsstring \<times> jsstring) option" where
  \<comment> \<open>after the opening quote: the string's code units, and the text after the closing quote\<close>
  "scan_string [] = None"
| "scan_string (c # cs) =
     (if c = 0x22 then Some ([], cs)
      else if c = 0x5C then
        (case cs of
           [] \<Rightarrow> None
         | e # r \<Rightarrow>
             if e = of_char (CHR ''u'') then
               (if 4 \<le> length r \<and> list_all is_hex (take 4 r) then
                  map_option (\<lambda>(str, rest). (of_nat (radix_value 16 (take 4 r)) # str, rest))
                    (scan_string (drop 4 r))
                else None)
             else
               (case escape_char e of
                  None \<Rightarrow> None
                | Some x \<Rightarrow> map_option (\<lambda>(str, rest). (x # str, rest)) (scan_string r)))
      else if c < 0x20 then None
      else map_option (\<lambda>(str, rest). (c # str, rest)) (scan_string cs))"

definition scan_fraction :: "jsstring \<Rightarrow> (jsstring \<times> jsstring) option" where
  \<comment> \<open>an optional point followed by one digit or more\<close>
  "scan_fraction s =
     (case s of
        [] \<Rightarrow> Some ([], [])
      | c # r \<Rightarrow>
          if c = of_char (CHR ''.'') then
            (if takeWhile is_digit r = [] then None
             else Some (takeWhile is_digit r, dropWhile is_digit r))
          else Some ([], s))"

definition scan_sign :: "jsstring \<Rightarrow> bool \<times> jsstring" where
  "scan_sign s =
     (case s of
        [] \<Rightarrow> (False, [])
      | c # r \<Rightarrow>
          if c = of_char (CHR ''-'') then (True, r)
          else if c = of_char (CHR ''+'') then (False, r)
          else (False, s))"

definition scan_exponent :: "jsstring \<Rightarrow> (int \<times> jsstring) option" where
  \<comment> \<open>an optional \<^verbatim>\<open>e\<close> or \<^verbatim>\<open>E\<close>, an optional sign, one digit or more\<close>
  "scan_exponent s =
     (case s of
        [] \<Rightarrow> Some (0, [])
      | c # r \<Rightarrow>
          if c = of_char (CHR ''e'') \<or> c = of_char (CHR ''E'') then
            (let (neg, r') = scan_sign r; ds = takeWhile is_digit r'
             in if ds = [] then None
                else Some ((if neg then - int (digits_value ds) else int (digits_value ds)),
                           dropWhile is_digit r'))
          else Some (0, s))"

definition scan_number :: "jsstring \<Rightarrow> (jsnum \<times> jsstring) option" where
  \<comment> \<open>\<^verbatim>\<open>-\<close>? (\<^verbatim>\<open>0\<close> | nonzero digit, digits) fraction? exponent?\<close>
  "scan_number s =
     (let neg = (s \<noteq> [] \<and> hd s = of_char (CHR ''-''));
          s1 = (if neg then tl s else s);
          ip = takeWhile is_digit s1
      in if ip = [] \<or> (1 < length ip \<and> hd ip = 0x30) then None
         else
           (case scan_fraction (dropWhile is_digit s1) of
              None \<Rightarrow> None
            | Some (fp, s2) \<Rightarrow>
                (case scan_exponent s2 of
                   None \<Rightarrow> None
                 | Some (ex, s3) \<Rightarrow> Some (decimal_literal neg ip fp ex, s3))))"

definition scan_literal :: "jsstring \<Rightarrow> token \<Rightarrow> jsstring \<Rightarrow> (token \<times> jsstring) option" where
  "scan_literal lit t s =
     (if take (length lit) s = lit then Some (t, drop (length lit) s) else None)"

definition scan_token :: "jsstring \<Rightarrow> (token \<times> jsstring) option" where
  "scan_token s =
     (case s of
        [] \<Rightarrow> None
      | c # cs \<Rightarrow>
          if c = of_char (CHR ''['') then Some (LBracket, cs)
          else if c = of_char (CHR '']'') then Some (RBracket, cs)
          else if c = of_char (CHR ''{'') then Some (LBrace, cs)
          else if c = of_char (CHR ''}'') then Some (RBrace, cs)
          else if c = of_char (CHR '':'') then Some (Colon, cs)
          else if c = of_char (CHR '','') then Some (Comma, cs)
          else if c = 0x22 then map_option (\<lambda>(str, rest). (TStr str, rest)) (scan_string cs)
          else if c = of_char (CHR ''-'') \<or> is_digit c then
            map_option (\<lambda>(n, rest). (TNum n, rest)) (scan_number s)
          else if c = of_char (CHR ''n'') then scan_literal (ascii ''null'') TNull s
          else if c = of_char (CHR ''t'') then scan_literal (ascii ''true'') TTrue s
          else if c = of_char (CHR ''f'') then scan_literal (ascii ''false'') TFalse s
          else None)"

text \<open>Every scanner consumes at least one code unit, so cutting into tokens terminates.\<close>

lemma scan_string_shorter: "scan_string s = Some (x, r) \<Longrightarrow> length r < length s"
proof (induction s arbitrary: x r rule: scan_string.induct)
  case 1
  then show ?case by simp
next
  case (2 c cs)
  then show ?case
    by (fastforce split: if_splits list.splits option.splits)
qed

lemma scan_fraction_shorter: "scan_fraction s = Some (x, r) \<Longrightarrow> length r \<le> length s"
  by (auto simp: scan_fraction_def split: list.splits if_splits
      intro: le_trans [OF length_dropWhile_le])

lemma scan_sign_shorter: "scan_sign s = (b, r) \<Longrightarrow> length r \<le> length s"
  by (auto simp: scan_sign_def split: list.splits if_splits)

lemma scan_exponent_shorter: "scan_exponent s = Some (x, r) \<Longrightarrow> length r \<le> length s"
  by (auto simp: scan_exponent_def Let_def split: list.splits if_splits prod.splits
      dest!: scan_sign_shorter intro: le_trans [OF length_dropWhile_le])

lemma dropWhile_shorter: "takeWhile P s \<noteq> [] \<Longrightarrow> length (dropWhile P s) < length s"
  by (cases s) (auto intro: le_imp_less_Suc length_dropWhile_le split: if_splits)

lemma scan_number_shorter:
  assumes "scan_number s = Some (n, r)"
  shows "length r < length s"
proof -
  define s1 where "s1 = (if s \<noteq> [] \<and> hd s = of_char (CHR ''-'') then tl s else s)"
  from assms obtain fp s2 ex where
    ip: "takeWhile is_digit s1 \<noteq> []" and
    fr: "scan_fraction (dropWhile is_digit s1) = Some (fp, s2)" and
    ex: "scan_exponent s2 = Some (ex, r)"
    unfolding scan_number_def Let_def s1_def
    by (auto split: if_splits option.splits)
  have "length r \<le> length s2" using ex by (rule scan_exponent_shorter)
  also have "\<dots> \<le> length (dropWhile is_digit s1)" using fr by (rule scan_fraction_shorter)
  also have "\<dots> < length s1" using ip by (rule dropWhile_shorter)
  also have "\<dots> \<le> length s" by (simp add: s1_def)
  finally show ?thesis .
qed

lemma scan_token_shorter: "scan_token s = Some (t, r) \<Longrightarrow> length r < length s"
  by (cases s)
    (auto simp: scan_token_def scan_literal_def ascii_def split: if_splits
      dest: scan_string_shorter scan_number_shorter)

function lex :: "jsstring \<Rightarrow> token list option" where
  "lex [] = Some []"
| "lex (c # cs) =
     (if json_ws c then lex cs
      else (case scan_token (c # cs) of
              None \<Rightarrow> None
            | Some (t, rest) \<Rightarrow> map_option ((#) t) (lex rest)))"
  by pat_completeness auto
termination
  by (relation "measure length") (auto dest: scan_token_shorter)


subsection \<open>Objects: the order of own properties\<close>

text \<open>
  \<^verbatim>\<open>JSON.parse\<close> defines the members of an object in the order of the text. The host
  enumerates own properties with array indices first, in ascending order, then the other
  names in the order of their creation; a repeated name keeps its place and takes the
  later value.
\<close>

type_synonym members = "(jsstring \<times> jsval) list"

definition array_index :: "jsstring \<Rightarrow> nat option" where
  \<comment> \<open>a canonical numeric string below \<open>2^32 - 1\<close>\<close>
  "array_index k =
     (if k \<noteq> [] \<and> list_all is_digit k \<and> (length k = 1 \<or> hd k \<noteq> 0x30)
         \<and> digits_value k < 2 ^ 32 - 1
      then Some (digits_value k) else None)"

fun insert_index :: "nat \<Rightarrow> jsstring \<Rightarrow> jsval \<Rightarrow> members \<Rightarrow> members" where
  "insert_index i k v [] = [(k, v)]"
| "insert_index i k v ((k', v') # ms) =
     (case array_index k' of
        Some j \<Rightarrow> if j < i then (k', v') # insert_index i k v ms else (k, v) # (k', v') # ms
      | None \<Rightarrow> (k, v) # (k', v') # ms)"

definition obj_put :: "jsstring \<Rightarrow> jsval \<Rightarrow> members \<Rightarrow> members" where
  "obj_put k v ms =
     (if map_of ms k \<noteq> None then map (\<lambda>(k', v'). if k' = k then (k', v) else (k', v')) ms
      else (case array_index k of
              Some i \<Rightarrow> insert_index i k v ms
            | None \<Rightarrow> ms @ [(k, v)]))"

subsection \<open>From tokens to a value\<close>

datatype frame =
    InArray "jsval list"
  | InObject members
  | InMember members jsstring

datatype expect =
    WantValue
  | WantValueOrClose
  | WantKeyOrClose
  | WantKey
  | WantColon
  | WantCommaOrClose
  | Complete jsval

fun deliver :: "jsval \<Rightarrow> frame list \<Rightarrow> (expect \<times> frame list) option" where
  \<comment> \<open>a value is complete: it is the text's value, an element, or a member's value\<close>
  "deliver v [] = Some (Complete v, [])"
| "deliver v (InArray es # st) = Some (WantCommaOrClose, InArray (es @ [v]) # st)"
| "deliver v (InMember ms k # st) = Some (WantCommaOrClose, InObject (obj_put k v ms) # st)"
| "deliver v (InObject ms # st) = None"

definition start_value :: "token \<Rightarrow> frame list \<Rightarrow> (expect \<times> frame list) option" where
  "start_value t st =
     (case t of
        LBracket \<Rightarrow> Some (WantValueOrClose, InArray [] # st)
      | LBrace \<Rightarrow> Some (WantKeyOrClose, InObject [] # st)
      | TNull \<Rightarrow> deliver Null st
      | TTrue \<Rightarrow> deliver (Bool True) st
      | TFalse \<Rightarrow> deliver (Bool False) st
      | TNum n \<Rightarrow> deliver (Num n) st
      | TStr s \<Rightarrow> deliver (Str s) st
      | _ \<Rightarrow> None)"

definition start_member :: "token \<Rightarrow> frame list \<Rightarrow> (expect \<times> frame list) option" where
  "start_member t st =
     (case (t, st) of
        (TStr k, InObject ms # st') \<Rightarrow> Some (WantColon, InMember ms k # st')
      | _ \<Rightarrow> None)"

definition close_container :: "token \<Rightarrow> frame list \<Rightarrow> (expect \<times> frame list) option" where
  "close_container t st =
     (case (t, st) of
        (RBracket, InArray es # st') \<Rightarrow> deliver (Arr es) st'
      | (RBrace, InObject ms # st') \<Rightarrow> deliver (Obj ms) st'
      | _ \<Rightarrow> None)"

definition parse_step :: "expect \<Rightarrow> frame list \<Rightarrow> token \<Rightarrow> (expect \<times> frame list) option" where
  "parse_step e st t =
     (case e of
        WantValue \<Rightarrow> start_value t st
      | WantValueOrClose \<Rightarrow> if t = RBracket then close_container t st else start_value t st
      | WantKeyOrClose \<Rightarrow> if t = RBrace then close_container t st else start_member t st
      | WantKey \<Rightarrow> start_member t st
      | WantColon \<Rightarrow> if t = Colon then Some (WantValue, st) else None
      | WantCommaOrClose \<Rightarrow>
          (case st of
             InArray es # st' \<Rightarrow>
               if t = Comma then Some (WantValue, st) else close_container t st
           | InObject ms # st' \<Rightarrow>
               if t = Comma then Some (WantKey, st) else close_container t st
           | _ \<Rightarrow> None)
      | Complete v \<Rightarrow> None)"

fun parse_run :: "expect \<Rightarrow> frame list \<Rightarrow> token list \<Rightarrow> jsval option" where
  "parse_run e st [] = (case e of Complete v \<Rightarrow> Some v | _ \<Rightarrow> None)"
| "parse_run e st (t # ts) =
     (case parse_step e st t of
        None \<Rightarrow> None
      | Some (e', st') \<Rightarrow> parse_run e' st' ts)"

definition JSON_parse :: "jsstring \<Rightarrow> jsval option" where
  \<comment> \<open>\<open>None\<close> is the SyntaxError of \<^verbatim>\<open>JSON.parse\<close>\<close>
  "JSON_parse s = (case lex s of None \<Rightarrow> None | Some ts \<Rightarrow> parse_run WantValue [] ts)"

section \<open>Conversions and property access\<close>

subsection \<open>\<^verbatim>\<open>Number(text)\<close>: a string as a number\<close>

definition radix_digit :: "nat \<Rightarrow> code_unit \<Rightarrow> bool" where
  "radix_digit b c = (is_hex c \<and> hex_value c < b)"

definition radix_prefix :: "jsstring \<Rightarrow> nat option" where
  \<comment> \<open>\<^verbatim>\<open>0x\<close>, \<^verbatim>\<open>0o\<close>, \<^verbatim>\<open>0b\<close> in either case\<close>
  "radix_prefix t =
     (case t of
        z # p # _ \<Rightarrow>
          if z \<noteq> 0x30 then None
          else if p = of_char (CHR ''x'') \<or> p = of_char (CHR ''X'') then Some 16
          else if p = of_char (CHR ''o'') \<or> p = of_char (CHR ''O'') then Some 8
          else if p = of_char (CHR ''b'') \<or> p = of_char (CHR ''B'') then Some 2
          else None
      | _ \<Rightarrow> None)"

definition scan_point :: "jsstring \<Rightarrow> jsstring \<times> jsstring" where
  \<comment> \<open>an optional point with the digits after it, none allowed\<close>
  "scan_point s =
     (case s of
        [] \<Rightarrow> ([], [])
      | c # r \<Rightarrow>
          if c = of_char (CHR ''.'') then (takeWhile is_digit r, dropWhile is_digit r)
          else ([], s))"

definition StringToNumber :: "jsstring \<Rightarrow> jsnum" where
  \<comment> \<open>the StringNumericLiteral grammar; \<open>NaN\<close> for a text outside it\<close>
  "StringToNumber s =
     (let t = trim s in
      if t = [] then Fin 0
      else
        (case radix_prefix t of
           Some b \<Rightarrow>
             if drop 2 t \<noteq> [] \<and> list_all (radix_digit b) (drop 2 t)
             then round_double False (of_nat (radix_value b (drop 2 t)))
             else NaN
         | None \<Rightarrow>
             (let (neg, u) = scan_sign t in
              if u = ascii ''Infinity'' then signed_inf neg
              else
                (let ip = takeWhile is_digit u;
                     (fp, r) = scan_point (dropWhile is_digit u)
                 in if ip = [] \<and> fp = [] then NaN
                    else
                      (case scan_exponent r of
                         Some (ex, []) \<Rightarrow> decimal_literal neg ip fp ex
                       | _ \<Rightarrow> NaN)))))"

subsection \<open>Conversion to a number, the operator \<^verbatim>\<open>||\<close>\<close>

fun ToNumber :: "host \<Rightarrow> jsval \<Rightarrow> js_error + jsnum" where
  "ToNumber h Undefined = Inr NaN"
| "ToNumber h Null = Inr (Fin 0)"
| "ToNumber h (Bool b) = Inr (Fin (if b then 1 else 0))"
| "ToNumber h (Num n) = Inr n"
| "ToNumber h (Str s) = Inr (StringToNumber s)"
| "ToNumber h (Arr xs) = objectToNumber h (Arr xs)"
| "ToNumber h (Obj ms) = objectToNumber h (Obj ms)"

definition js_or :: "jsval \<Rightarrow> jsval \<Rightarrow> jsval" where
  "js_or a b = (if ToBoolean a then a else b)"

subsection \<open>Exceptions\<close>

definition bind_result :: "js_error + 'a \<Rightarrow> ('a \<Rightarrow> js_error + 'b) \<Rightarrow> js_error + 'b" where
  "bind_result r f = (case r of Inl e \<Rightarrow> Inl e | Inr x \<Rightarrow> f x)"

fun map_result :: "('a \<Rightarrow> js_error + 'b) \<Rightarrow> 'a list \<Rightarrow> js_error + 'b list" where
  \<comment> \<open>\<^verbatim>\<open>Array.prototype.map\<close> with a callback that can throw\<close>
  "map_result f [] = Inr []"
| "map_result f (x # xs) =
     bind_result (f x) (\<lambda>y. bind_result (map_result f xs) (\<lambda>ys. Inr (y # ys)))"

fun join :: "jsstring \<Rightarrow> jsstring list \<Rightarrow> jsstring" where
  \<comment> \<open>\<^verbatim>\<open>Array.prototype.join\<close> on an array of strings\<close>
  "join sep [] = []"
| "join sep [x] = x"
| "join sep (x # y # ys) = x @ sep @ join sep (y # ys)"

subsection \<open>Property access\<close>

text \<open>
  \<open>Get v k\<close> is \<^verbatim>\<open>v.k\<close> for a name \<open>k\<close> that no built-in prototype defines, which holds
  for every name the program reads (\<^verbatim>\<open>length\<close> is an own property of arrays and strings).
  Reading a property of \<^verbatim>\<open>undefined\<close> or \<^verbatim>\<open>null\<close> throws a TypeError.
\<close>

definition Get :: "jsval \<Rightarrow> jsstring \<Rightarrow> js_error + jsval" where
  "Get v k =
     (case v of
        Undefined \<Rightarrow> Inl TypeError
      | Null \<Rightarrow> Inl TypeError
      | Obj ms \<Rightarrow> Inr (case map_of ms k of Some x \<Rightarrow> x | None \<Rightarrow> Undefined)
      | Arr xs \<Rightarrow>
          Inr (if k = ascii ''length'' then Num (Fin (of_nat (length xs)))
               else (case array_index k of
                       Some i \<Rightarrow> if i < length xs then xs ! i else Undefined
                     | None \<Rightarrow> Undefined))
      | Str t \<Rightarrow>
          Inr (if k = ascii ''length'' then Num (Fin (of_nat (length t)))
               else (case array_index k of
                       Some i \<Rightarrow> if i < length t then Str [t ! i] else Undefined
                     | None \<Rightarrow> Undefined))
      | _ \<Rightarrow> Inr Undefined)"

definition Object_entries :: "jsval \<Rightarrow> js_error + (jsstring \<times> jsval) list" where
  \<comment> \<open>\<^verbatim>\<open>Object.entries\<close>: the own enumerable properties, in the host's order\<close>
  "Object_entries v =
     (case v of
        Undefined \<Rightarrow> Inl TypeError
      | Null \<Rightarrow> Inl TypeError
      | Obj ms \<Rightarrow> Inr ms
      | Arr xs \<Rightarrow> Inr (zip (map decimal [0..<length xs]) xs)
      | Str t \<Rightarrow> Inr (zip (map decimal [0..<length t]) (map (\<lambda>c. Str [c]) t))
      | _ \<Rightarrow> Inr [])"

definition Array_keys :: "jsval \<Rightarrow> js_error + nat list" where
  \<comment> \<open>\<^verbatim>\<open>[...Array(len).keys()]\<close>: a number must be an integer below \<open>2^32\<close>; any other
      value becomes the only element of an array of length one\<close>
  "Array_keys len =
     (case len of
        Num n \<Rightarrow>
          (case n of
             Fin r \<Rightarrow>
               if 0 \<le> r \<and> r < 2 ^ 32 \<and> of_int \<lfloor>r\<rfloor> = r then Inr [0..<nat \<lfloor>r\<rfloor>]
               else Inl RangeError
           | NegZero \<Rightarrow> Inr []
           | _ \<Rightarrow> Inl RangeError)
      | _ \<Rightarrow> Inr [0])"

section \<open>The page and its state\<close>

text \<open>
  The state is the variable \<^verbatim>\<open>currentPortfolioJSON\<close> (the PortfolioStore of the
  specification) and what the handlers read and write of the document: the chosen file,
  the JSON editor, the two numeric inputs, the parse status, the simulation summary, the
  probability block and the two charts. The alerts shown, the errors logged and the
  requests issued are kept as logs. \<^verbatim>\<open>Plotly.newPlot\<close> is the charting library: it
  replaces the chart of an element by the given traces and is taken not to throw.
\<close>

datatype document = Document jsstring

datatype request =
    ParseDocx document
  | Simulate jsval jsnum jsnum

datatype response =
    NetworkFailure
  | Response nat jsstring

definition response_ok :: "nat \<Rightarrow> bool" where
  \<comment> \<open>\<^verbatim>\<open>r.ok\<close>: the status is in the range 200 to 299\<close>
  "response_ok st = (200 \<le> st \<and> st \<le> 299)"

record line_trace =
  trace_x :: "jsstring list"
  trace_y :: jsval
  trace_mode :: jsstring
  line_width :: nat
  line_color :: "jsstring option"
  trace_fill :: "jsstring option"
  fillcolor :: "jsstring option"
  showlegend :: "bool option"
  trace_name :: jsstring
  hoverinfo :: "jsstring option"

record bar_trace =
  bar_x :: "nat list"
  bar_y :: "jsval list"
  bar_type :: jsstring
  bar_name :: jsstring
  marker_color :: jsstring

record layout =
  layout_title :: jsstring
  xaxis_title :: "jsstring option"
  xaxis_zeroline :: "bool option"
  xaxis_showticklabels :: "bool option"
  yaxis_title :: jsstring
  yaxis_tickformat :: "jsstring option"
  barmode :: "jsstring option"
  margin_trbl :: "nat \<times> nat \<times> nat \<times> nat"

record page =
  currentPortfolioJSON :: jsval
  docxFile :: "document option"
  jsonInput :: jsstring
  nPaths :: jsstring
  seed :: jsstring
  parseStatus :: "jsstring \<times> jsstring"
  simSummary :: jsstring
  probGoals :: jsstring
  fanChart :: "(line_trace list \<times> layout) option"
  histChart :: "(bar_trace list \<times> layout) option"
  alerts :: "jsstring list"
  console_errors :: "js_error list"
  fetched :: "request list"

definition initial_page :: page where
  "initial_page =
     \<lparr>currentPortfolioJSON = Null, docxFile = None, jsonInput = [], nPaths = [], seed = [],
      parseStatus = ([], []), simSummary = [], probGoals = [], fanChart = None,
      histChart = None, alerts = [], console_errors = [], fetched = []\<rparr>"

definition setStatus :: "jsstring \<Rightarrow> bool \<Rightarrow> page \<Rightarrow> page" where
  \<comment> \<open>\<^verbatim>\<open>setStatus("parseStatus", msg, isErr)\<close>, the only element it is called with\<close>
  "setStatus msg isErr s =
     s\<lparr>parseStatus := (msg, if isErr then ascii ''status error'' else ascii ''status'')\<rparr>"

definition alert :: "jsstring \<Rightarrow> page \<Rightarrow> page" where
  "alert msg s = s\<lparr>alerts := alerts s @ [msg]\<rparr>"

definition console_error :: "js_error \<Rightarrow> page \<Rightarrow> page" where
  "console_error e s = s\<lparr>console_errors := console_errors s @ [e]\<rparr>"

definition fetch :: "request \<Rightarrow> page \<Rightarrow> page" where
  "fetch q s = s\<lparr>fetched := fetched s @ [q]\<rparr>"

section \<open>The numeric inputs\<close>

text \<open>
  The handler reads the two inputs through their \<^verbatim>\<open>value\<close>. The markup that declares
  the inputs is not part of the source; section 4.3 and section 6 of the specification
  call them numeric inputs. The value of such an input is what the user entered when
  that is a valid floating-point number, and the empty string otherwise.
\<close>

definition valid_float :: "jsstring \<Rightarrow> bool" where
  \<comment> \<open>Modelled from the spec: the markup of the page, which declares the path count and the
      seed as numeric inputs, is missing. A valid floating-point number is an optional
      \<^verbatim>\<open>-\<close>, then digits, or digits, a point and digits, or a point and digits, then
      optionally \<^verbatim>\<open>e\<close> or \<^verbatim>\<open>E\<close>, an optional sign, and digits.\<close>
  "valid_float v =
     (let u = (case v of [] \<Rightarrow> [] | c # r \<Rightarrow> if c = of_char (CHR ''-'') then r else v)
      in case scan_fraction (dropWhile is_digit u) of
           None \<Rightarrow> False
         | Some (fp, r) \<Rightarrow>
             (takeWhile is_digit u \<noteq> [] \<or> fp \<noteq> []) \<and>
             (case scan_exponent r of Some (ex, []) \<Rightarrow> True | _ \<Rightarrow> False))"

definition number_input_value :: "jsstring \<Rightarrow> jsstring" where
  \<comment> \<open>Modelled from the spec: the \<^verbatim>\<open>value\<close> of a numeric input (markup missing) in which
      the user entered \<open>e\<close>; an entry that is not a valid floating-point number is reported
      as the empty string.\<close>
  "number_input_value e = (if valid_float e then e else [])"

definition float_char :: "code_unit \<Rightarrow> bool" where
  \<comment> \<open>the code units a valid floating-point number is made of\<close>
  "float_char c =
     (is_digit c \<or> c = of_char (CHR ''-'') \<or> c = of_char (CHR ''+'') \<or> c = of_char (CHR ''.'')
      \<or> c = of_char (CHR ''e'') \<or> c = of_char (CHR ''E''))"

fun sent_paths :: "request \<Rightarrow> jsnum option" where
  \<comment> \<open>\<^verbatim>\<open>n_paths\<close> of a simulate request\<close>
  "sent_paths (Simulate p n sd) = Some n"
| "sent_paths (ParseDocx f) = None"

fun sent_seed :: "request \<Rightarrow> jsnum option" where
  \<comment> \<open>\<^verbatim>\<open>seed\<close> of a simulate request\<close>
  "sent_seed (Simulate p n sd) = Some sd"
| "sent_seed (ParseDocx f) = None"

section \<open>The parse, load and clear handlers\<close>

text \<open>
  An \<^verbatim>\<open>async\<close> handler runs to its \<^verbatim>\<open>await fetch(...)\<close> when the button is clicked (the
  \<open>click\<close> function) and resumes when the request settles (the \<open>resume\<close> function, given
  the outcome). Between the two awaits of a handler nothing reads or writes the state, so
  one resumption per request carries all its effects.
\<close>

definition parseBtn_click :: "page \<Rightarrow> page" where
  "parseBtn_click s =
     (case docxFile s of
        None \<Rightarrow> setStatus (ascii ''Please choose a .docx file'') True s
      | Some f \<Rightarrow> fetch (ParseDocx f) (setStatus (ascii ''Parsing'' @ [0x2026]) False s))"

definition response_json :: "response \<Rightarrow> js_error + jsval" where
  \<comment> \<open>the awaited \<^verbatim>\<open>fetch\<close>, the check of \<^verbatim>\<open>r.ok\<close>, and \<^verbatim>\<open>await r.json()\<close>\<close>
  "response_json r =
     (case r of
        NetworkFailure \<Rightarrow> Inl NetworkError
      | Response st body \<Rightarrow>
          if \<not> response_ok st then Inl (HttpError st)
          else (case JSON_parse body of None \<Rightarrow> Inl SyntaxError | Some data \<Rightarrow> Inr data))"

definition editor_text :: "host \<Rightarrow> jsval \<Rightarrow> jsstring" where
  \<comment> \<open>what assigning \<^verbatim>\<open>JSON.stringify(v, null, 2)\<close> to the editor's value stores\<close>
  "editor_text h v = (if v = Undefined then ascii ''undefined'' else JSON_stringify h v)"

definition parseBtn_resume :: "host \<Rightarrow> response \<Rightarrow> page \<Rightarrow> page" where
  "parseBtn_resume h r s =
     (case bind_result (response_json r) (\<lambda>data. Get data (ascii ''portfolio'')) of
        Inr p \<Rightarrow>
          setStatus (ascii ''Parsed successfully '' @ [0x2713]) False
            (s\<lparr>currentPortfolioJSON := p, jsonInput := editor_text h p\<rparr>)
      | Inl e \<Rightarrow> setStatus (ascii ''Failed to parse document'') True (console_error e s))"

text \<open>
  The ways a parse attempt reaches the \<^verbatim>\<open>catch\<close> block: the request fails, the status is
  not a success, the body is not JSON, or the body is the JSON value \<^verbatim>\<open>null\<close> (reading its
  \<^verbatim>\<open>portfolio\<close> throws).
\<close>

definition parse_attempt_throws :: "response \<Rightarrow> bool" where
  "parse_attempt_throws r =
     (case r of
        NetworkFailure \<Rightarrow> True
      | Response st body \<Rightarrow>
          \<not> response_ok st \<or> JSON_parse body = None \<or> JSON_parse body = Some Null)"

definition useJsonBtn_click :: "page \<Rightarrow> page" where
  "useJsonBtn_click s =
     (case JSON_parse (trim (jsonInput s)) of
        Some v \<Rightarrow> alert (ascii ''Portfolio JSON loaded.'') (s\<lparr>currentPortfolioJSON := v\<rparr>)
      | None \<Rightarrow> alert (ascii ''Invalid JSON.'') s)"

definition clearJsonBtn_click :: "page \<Rightarrow> page" where
  "clearJsonBtn_click s = s\<lparr>jsonInput := [], currentPortfolioJSON := Null\<rparr>"

section \<open>Rendering a simulation result\<close>

definition percent :: "host \<Rightarrow> jsval \<Rightarrow> js_error + jsstring" where
  \<comment> \<open>\<^verbatim>\<open>(v*100).toFixed(1)\<close>\<close>
  "percent h v = bind_result (ToNumber h v) (\<lambda>n. Inr (toFixed h 1 (js_mul n (Fin 100))))"

definition goal_entries :: "jsval \<Rightarrow> js_error + (jsstring \<times> jsval) list" where
  \<comment> \<open>\<^verbatim>\<open>Object.entries(data.prob_by_goal)\<close>\<close>
  "goal_entries d = bind_result (Get d (ascii ''prob_by_goal'')) Object_entries"

definition goal_line :: "jsstring \<Rightarrow> jsstring \<Rightarrow> jsstring" where
  "goal_line k p = k @ ascii '': '' @ p @ ascii ''%''"

definition pill :: "jsstring \<Rightarrow> jsstring \<Rightarrow> jsstring" where
  "pill k p =
     ascii ''<div class='' @ [0x22] @ ascii ''pill'' @ [0x22] @ ascii ''><b>'' @ k @
     ascii ''</b> '' @ p @ ascii ''%</div>''"

definition goal_texts ::
    "host \<Rightarrow> (jsstring \<Rightarrow> jsstring \<Rightarrow> jsstring) \<Rightarrow> jsval \<Rightarrow> js_error + jsstring list" where
  \<comment> \<open>the entries mapped to one text each, by the template \<open>f\<close>\<close>
  "goal_texts h f d =
     bind_result (goal_entries d)
       (map_result (\<lambda>(k, v). bind_result (percent h v) (\<lambda>p. Inr (f k p))))"

definition dollars :: "host \<Rightarrow> jsval \<Rightarrow> jsstring \<Rightarrow> js_error + jsstring" where
  \<comment> \<open>\<^verbatim>\<open>Math.round(s.f).toLocaleString()\<close>\<close>
  "dollars h s f =
     bind_result (Get s f)
       (\<lambda>x. bind_result (ToNumber h x) (\<lambda>n. Inr (toLocaleString h (Math_round n))))"

definition summary_lines ::
    "jsstring \<Rightarrow> jsstring \<Rightarrow> jsstring \<Rightarrow> jsstring \<Rightarrow> jsstring list" where
  "summary_lines probLines m lo hi =
     [ascii ''Goal Probabilities'',
      probLines,
      [],
      ascii ''Median terminal: $'' @ m,
      ascii ''5th'' @ [0x2013] @ ascii ''95th: $'' @ lo @ ascii '' '' @ [0x2013] @ ascii '' $'' @ hi]"

definition summary_text :: "host \<Rightarrow> jsval \<Rightarrow> js_error + jsstring" where
  "summary_text h d =
     bind_result (goal_texts h goal_line d) (\<lambda>ls.
     bind_result (Get d (ascii ''summary'')) (\<lambda>s.
     bind_result (dollars h s (ascii ''median_terminal'')) (\<lambda>m.
     bind_result (dollars h s (ascii ''p5_terminal'')) (\<lambda>lo.
     bind_result (dollars h s (ascii ''p95_terminal'')) (\<lambda>hi.
       Inr (join [0x0A] (summary_lines (join [0x0A] ls) m lo hi)))))))"

definition prob_block :: "host \<Rightarrow> jsval \<Rightarrow> js_error + jsstring" where
  "prob_block h d = bind_result (goal_texts h pill d) (\<lambda>ps. Inr (join [] ps))"

definition ptile :: "jsval \<Rightarrow> jsstring \<Rightarrow> js_error + jsval" where
  \<comment> \<open>\<^verbatim>\<open>data.ptiles_over_time.p\<close>\<close>
  "ptile d p = bind_result (Get d (ascii ''ptiles_over_time'')) (\<lambda>t. Get t p)"

definition year_labels :: "host \<Rightarrow> nat list \<Rightarrow> jsstring list" where
  \<comment> \<open>\<^verbatim>\<open>months.map(m => (m/12).toFixed(1))\<close>\<close>
  "year_labels h months = map (\<lambda>m. toFixed h 1 (js_div (Fin (of_nat m)) (Fin 12))) months"

definition traceBand :: "jsstring list \<Rightarrow> jsval \<Rightarrow> line_trace" where
  "traceBand years p90 =
     \<lparr>trace_x = years, trace_y = p90, trace_mode = ascii ''lines'', line_width = 0,
      line_color = None, trace_fill = None, fillcolor = None, showlegend = Some False,
      trace_name = ascii ''90th'', hoverinfo = Some (ascii ''skip'')\<rparr>"

definition traceBand2 :: "jsstring list \<Rightarrow> jsval \<Rightarrow> line_trace" where
  "traceBand2 years p10 =
     \<lparr>trace_x = years, trace_y = p10, trace_mode = ascii ''lines'', line_width = 0,
      line_color = None, trace_fill = Some (ascii ''tonexty''),
      fillcolor = Some (ascii ''rgba(33,150,243,0.15)''), showlegend = Some False,
      trace_name = ascii ''10th'', hoverinfo = Some (ascii ''skip'')\<rparr>"

definition traceMedian :: "jsstring list \<Rightarrow> jsval \<Rightarrow> line_trace" where
  "traceMedian years p50 =
     \<lparr>trace_x = years, trace_y = p50, trace_mode = ascii ''lines'', line_width = 2,
      line_color = Some (ascii ''#2196F3''), trace_fill = None, fillcolor = None,
      showlegend = None, trace_name = ascii ''Median'', hoverinfo = None\<rparr>"

definition fan_layout :: layout where
  "fan_layout =
     \<lparr>layout_title = ascii ''Projected Wealth (Percentiles)'',
      xaxis_title = Some (ascii ''Years''), xaxis_zeroline = Some False,
      xaxis_showticklabels = None, yaxis_title = ascii ''Portfolio Value ($)'',
      yaxis_tickformat = Some (ascii '',.0f''), barmode = None,
      margin_trbl = (40, 10, 50, 60)\<rparr>"

definition fan_traces :: "host \<Rightarrow> jsval \<Rightarrow> js_error + line_trace list" where
  "fan_traces h d =
     bind_result (ptile d (ascii ''p10'')) (\<lambda>p10.
     bind_result (ptile d (ascii ''p50'')) (\<lambda>p50.
     bind_result (ptile d (ascii ''p90'')) (\<lambda>p90.
     bind_result (Get p50 (ascii ''length'')) (\<lambda>len.
     bind_result (Array_keys len) (\<lambda>months.
       Inr [traceBand (year_labels h months) p90,
            traceBand2 (year_labels h months) p10,
            traceMedian (year_labels h months) p50])))))"

definition marker :: "nat \<Rightarrow> jsstring \<Rightarrow> jsval \<Rightarrow> jsstring \<Rightarrow> bar_trace" where
  "marker i name y color =
     \<lparr>bar_x = [i], bar_y = [y], bar_type = ascii ''bar'', bar_name = name,
      marker_color = color\<rparr>"

definition hist_layout :: layout where
  "hist_layout =
     \<lparr>layout_title = ascii ''Terminal Wealth Markers'', xaxis_title = None,
      xaxis_zeroline = None, xaxis_showticklabels = Some False, yaxis_title = ascii ''$'',
      yaxis_tickformat = None, barmode = Some (ascii ''group''),
      margin_trbl = (40, 10, 30, 60)\<rparr>"

definition terminal_markers :: "jsval \<Rightarrow> js_error + bar_trace list" where
  "terminal_markers d =
     bind_result (Get d (ascii ''summary'')) (\<lambda>s.
     bind_result (Get s (ascii ''p5_terminal'')) (\<lambda>p5.
     bind_result (Get s (ascii ''median_terminal'')) (\<lambda>med.
     bind_result (Get s (ascii ''p95_terminal'')) (\<lambda>p95.
       Inr [marker 0 (ascii ''P5'') p5 (ascii ''#aaa''),
            marker 1 (ascii ''Median'') med (ascii ''#2196F3''),
            marker 2 (ascii ''P95'') p95 (ascii ''#aaa'')]))))"

definition renderResults :: "host \<Rightarrow> jsval \<Rightarrow> page \<Rightarrow> page \<times> js_error option" where
  \<comment> \<open>the page as the function leaves it, and the exception it threw, if any\<close>
  "renderResults h d s =
     (case summary_text h d of
        Inl e \<Rightarrow> (s, Some e)
      | Inr summary \<Rightarrow>
          (let s1 = s\<lparr>simSummary := summary\<rparr> in
           case prob_block h d of
             Inl e \<Rightarrow> (s1, Some e)
           | Inr html \<Rightarrow>
               (let s2 = s1\<lparr>probGoals := html\<rparr> in
                case fan_traces h d of
                  Inl e \<Rightarrow> (s2, Some e)
                | Inr traces \<Rightarrow>
                    (let s3 = s2\<lparr>fanChart := Some (traces, fan_layout)\<rparr> in
                     case terminal_markers d of
                       Inl e \<Rightarrow> (s3, Some e)
                     | Inr bars \<Rightarrow> (s3\<lparr>histChart := Some (bars, hist_layout)\<rparr>, None)))))"

section \<open>The simulate handler\<close>

definition simulateBtn_click :: "host \<Rightarrow> page \<Rightarrow> page" where
  "simulateBtn_click h s =
     (if \<not> ToBoolean (currentPortfolioJSON s) then
        alert (ascii ''Load a portfolio first (parse or paste JSON).'') s
      else
        (case bind_result (ToNumber h (js_or (Str (nPaths s)) (Num (Fin 10000)))) (\<lambda>n.
              bind_result (ToNumber h (js_or (Str (seed s)) (Num (Fin 42)))) (\<lambda>sd.
                Inr (n, sd))) of
           Inl e \<Rightarrow> s
         | Inr (n, sd) \<Rightarrow>
             fetch (Simulate (currentPortfolioJSON s) n sd)
               (s\<lparr>simSummary := ascii ''Simulating'' @ [0x2026]\<rparr>)))"

definition simulation_failed :: "js_error \<Rightarrow> page \<Rightarrow> page" where
  \<comment> \<open>the \<^verbatim>\<open>catch\<close> block\<close>
  "simulation_failed e s = (console_error e s)\<lparr>simSummary := ascii ''Simulation failed.''\<rparr>"

definition simulateBtn_resume :: "host \<Rightarrow> response \<Rightarrow> page \<Rightarrow> page" where
  "simulateBtn_resume h r s =
     (case response_json r of
        Inl e \<Rightarrow> simulation_failed e s
      | Inr d \<Rightarrow>
          (case renderResults h d s of
             (s', None) \<Rightarrow> s'
           | (s', Some e) \<Rightarrow> simulation_failed e s'))"

section \<open>Events\<close>

text \<open>
  The page handles one event at a time: an edit of an input, a click, or the settling of
  a request. A request stays outstanding from its click to its settling, and requests
  settle in any order. A settling event names the request it answers by its position in
  the log \<open>fetched\<close>; the handlers do not see that position, since the program keeps no
  token of the request a response belongs to. An edit of a numeric input carries what
  the user entered; the input keeps its \<open>number_input_value\<close>.
\<close>

datatype event =
    ChooseFile "document option"
  | EditJson jsstring
  | EditPaths jsstring
  | EditSeed jsstring
  | ParseClick
  | ParseSettled nat response
  | UseJsonClick
  | ClearClick
  | SimulateClick
  | SimulateSettled nat response

fun handle :: "host \<Rightarrow> page \<Rightarrow> event \<Rightarrow> page" where
  "handle h s (ChooseFile f) = s\<lparr>docxFile := f\<rparr>"
| "handle h s (EditJson t) = s\<lparr>jsonInput := t\<rparr>"
| "handle h s (EditPaths t) = s\<lparr>nPaths := number_input_value t\<rparr>"
| "handle h s (EditSeed t) = s\<lparr>seed := number_input_value t\<rparr>"
| "handle h s ParseClick = parseBtn_click s"
| "handle h s (ParseSettled i r) = parseBtn_resume h r s"
| "handle h s UseJsonClick = useJsonBtn_click s"
| "handle h s ClearClick = clearJsonBtn_click s"
| "handle h s SimulateClick = simulateBtn_click h s"
| "handle h s (SimulateSettled i r) = simulateBtn_resume h r s"

definition run :: "host \<Rightarrow> page \<Rightarrow> event list \<Rightarrow> page" where
  "run h s es = foldl (handle h) s es"

section \<open>A host to run examples on\<close>

text \<open>
  The examples run on a host whose default locale is en-US: digits in groups of three
  separated by commas, at most three fraction digits. Its other answers are fixed texts;
  no example reaches them.
\<close>

fun group3 :: "jsstring \<Rightarrow> jsstring" where
  "group3 ds =
     (if length ds \<le> 3 then ds
      else group3 (take (length ds - 3) ds) @ ascii '','' @ drop (length ds - 3) ds)"

declare group3.simps [simp del]

definition fraction3 :: "nat \<Rightarrow> jsstring" where
  \<comment> \<open>thousandths as fraction digits, trailing zeros dropped\<close>
  "fraction3 n =
     (if n = 0 then []
      else ascii ''.'' @
        rev (dropWhile (\<lambda>c. c = 0x30) (rev (replicate (3 - length (decimal n)) 0x30 @ decimal n))))"

definition en_US :: "jsnum \<Rightarrow> jsstring" where
  "en_US x =
     (case x of
        NaN \<Rightarrow> ascii ''NaN''
      | PosInf \<Rightarrow> [0x221E]
      | NegInf \<Rightarrow> ascii ''-'' @ [0x221E]
      | NegZero \<Rightarrow> ascii ''-0''
      | Fin r \<Rightarrow>
          (let n = nat \<lfloor>\<bar>r\<bar> * 1000 + 1 / 2\<rfloor>
           in (if r < 0 then ascii ''-'' else []) @ group3 (decimal (n div 1000)) @
              fraction3 (n mod 1000)))"

definition en_US_host :: host where
  "en_US_host =
     \<lparr>numberToString = (\<lambda>x. ascii ''1e+21''),
      toLocaleString = en_US,
      objectToNumber = (\<lambda>v. Inr NaN),
      JSON_stringify = (\<lambda>v. ascii ''{}'')\<rparr>"

section \<open>The shape of a simulation response\<close>

text \<open>
  Section 3 of the specification gives a SimulationResponse three parts: the
  probabilities by goal, in the order in which the response enumerates them; the three
  terminal amounts; and the three percentile series. \<open>represents d r\<close> says that the
  value \<open>d\<close> carries exactly these parts under the documented names.
\<close>

record sim_response =
  resp_prob_by_goal :: "(jsstring \<times> jsnum) list"
  resp_median_terminal :: jsnum
  resp_p5_terminal :: jsnum
  resp_p95_terminal :: jsnum
  resp_p10 :: "jsnum list"
  resp_p50 :: "jsnum list"
  resp_p90 :: "jsnum list"

definition summary_field :: "jsval \<Rightarrow> jsstring \<Rightarrow> js_error + jsval" where
  \<comment> \<open>\<^verbatim>\<open>data.summary.f\<close>\<close>
  "summary_field d f = bind_result (Get d (ascii ''summary'')) (\<lambda>s. Get s f)"

definition represents :: "jsval \<Rightarrow> sim_response \<Rightarrow> bool" where
  "represents d r =
     (Get d (ascii ''prob_by_goal'') = Inr (Obj (map (\<lambda>(k, p). (k, Num p)) (resp_prob_by_goal r)))
      \<and> summary_field d (ascii ''median_terminal'') = Inr (Num (resp_median_terminal r))
      \<and> summary_field d (ascii ''p5_terminal'') = Inr (Num (resp_p5_terminal r))
      \<and> summary_field d (ascii ''p95_terminal'') = Inr (Num (resp_p95_terminal r))
      \<and> ptile d (ascii ''p10'') = Inr (Arr (map Num (resp_p10 r)))
      \<and> ptile d (ascii ''p50'') = Inr (Arr (map Num (resp_p50 r)))
      \<and> ptile d (ascii ''p90'') = Inr (Arr (map Num (resp_p90 r))))"

definition response_value :: "sim_response \<Rightarrow> jsval" where
  \<comment> \<open>the value of a response with its parts in the documented order\<close>
  "response_value r =
     Obj [(ascii ''prob_by_goal'', Obj (map (\<lambda>(k, p). (k, Num p)) (resp_prob_by_goal r))),
          (ascii ''summary'',
             Obj [(ascii ''median_terminal'', Num (resp_median_terminal r)),
                  (ascii ''p5_terminal'', Num (resp_p5_terminal r)),
                  (ascii ''p95_terminal'', Num (resp_p95_terminal r))]),
          (ascii ''ptiles_over_time'',
             Obj [(ascii ''p10'', Arr (map Num (resp_p10 r))),
                  (ascii ''p50'', Arr (map Num (resp_p50 r))),
                  (ascii ''p90'', Arr (map Num (resp_p90 r)))])]"

definition is_amount :: "jsval \<Rightarrow> bool" where
  \<comment> \<open>a non-negative currency amount\<close>
  "is_amount v = (case v of Num (Fin x) \<Rightarrow> 0 \<le> x | Num NegZero \<Rightarrow> True | _ \<Rightarrow> False)"

definition is_probability :: "jsval \<Rightarrow> bool" where
  "is_probability v = (case v of Num (Fin x) \<Rightarrow> 0 \<le> x \<and> x \<le> 1 | Num NegZero \<Rightarrow> True | _ \<Rightarrow> False)"

definition amount_at :: "js_error + jsval \<Rightarrow> bool" where
  "amount_at r = (case r of Inr v \<Rightarrow> is_amount v | Inl e \<Rightarrow> False)"

definition series_at :: "js_error + jsval \<Rightarrow> nat option" where
  \<comment> \<open>the length of a series of amounts\<close>
  "series_at r =
     (case r of
        Inr (Arr xs) \<Rightarrow> if list_all is_amount xs then Some (length xs) else None
      | _ \<Rightarrow> None)"

definition is_SimulationResponse :: "jsval \<Rightarrow> bool" where
  \<comment> \<open>Following section 3 of the specification: \<^verbatim>\<open>prob_by_goal\<close> maps goal names to
      probabilities in [0,1]; \<^verbatim>\<open>summary\<close> holds three non-negative amounts;
      \<^verbatim>\<open>ptiles_over_time\<close> holds three series of amounts of equal length.\<close>
  "is_SimulationResponse d =
     ((case Get d (ascii ''prob_by_goal'') of
         Inr (Obj gs) \<Rightarrow> list_all (\<lambda>(k, v). is_probability v) gs
       | _ \<Rightarrow> False)
      \<and> amount_at (summary_field d (ascii ''median_terminal''))
      \<and> amount_at (summary_field d (ascii ''p5_terminal''))
      \<and> amount_at (summary_field d (ascii ''p95_terminal''))
      \<and> series_at (ptile d (ascii ''p50'')) \<noteq> None
      \<and> series_at (ptile d (ascii ''p10'')) = series_at (ptile d (ascii ''p50''))
      \<and> series_at (ptile d (ascii ''p90'')) = series_at (ptile d (ascii ''p50'')))"

text \<open>
  The ways a simulate attempt reaches the \<^verbatim>\<open>catch\<close> block: the request fails, the status
  is not a success, the body is not JSON, or \<^verbatim>\<open>renderResults\<close> throws.
\<close>

definition simulate_attempt_throws :: "host \<Rightarrow> response \<Rightarrow> page \<Rightarrow> bool" where
  "simulate_attempt_throws h r s =
     (case response_json r of
        Inl e \<Rightarrow> True
      | Inr d \<Rightarrow> snd (renderResults h d s) \<noteq> None)"

definition is_nullish :: "js_error + jsval \<Rightarrow> bool" where
  \<comment> \<open>the read throws, or gives \<^verbatim>\<open>undefined\<close> or \<^verbatim>\<open>null\<close>\<close>
  "is_nullish r = (case r of Inl e \<Rightarrow> True | Inr v \<Rightarrow> v = Undefined \<or> v = Null)"

definition display ::
    "page \<Rightarrow> jsstring \<times> jsstring \<times> (line_trace list \<times> layout) option
       \<times> (bar_trace list \<times> layout) option" where
  \<comment> \<open>what a rendering leaves on the page\<close>
  "display s = (simSummary s, probGoals s, fanChart s, histChart s)"



subsection \<open>Response bodies for the examples\<close>

definition quoted :: "string \<Rightarrow> jsstring" where
  "quoted t = [0x22] @ ascii t @ [0x22]"

definition sample_body :: jsstring where
  \<comment> \<open>one goal, the amounts of the specification's examples, three months\<close>
  "sample_body =
     ascii ''{'' @ quoted ''prob_by_goal'' @ ascii '':{'' @ quoted ''retirement'' @
     ascii '':0.823},'' @ quoted ''summary'' @ ascii '':{'' @ quoted ''median_terminal'' @
     ascii '':1234567.4,'' @ quoted ''p5_terminal'' @ ascii '':500000,'' @
     quoted ''p95_terminal'' @ ascii '':3000000},'' @ quoted ''ptiles_over_time'' @
     ascii '':{'' @ quoted ''p10'' @ ascii '':[1,1,1],'' @ quoted ''p50'' @
     ascii '':[1,1,1],'' @ quoted ''p90'' @ ascii '':[1,1,1]}}''"

definition sample_response :: sim_response where
  "sample_response =
     \<lparr>resp_prob_by_goal = [(ascii ''retirement'', Fin (1853231246662959 / 2251799813685248))],
      resp_median_terminal = Fin (2651213303853875 / 2147483648),
      resp_p5_terminal = Fin 500000,
      resp_p95_terminal = Fin 3000000,
      resp_p10 = [Fin 1, Fin 1, Fin 1],
      resp_p50 = [Fin 1, Fin 1, Fin 1],
      resp_p90 = [Fin 1, Fin 1, Fin 1]\<rparr>"

definition empty_body :: jsstring where
  \<comment> \<open>no goal, amounts of 1, no month\<close>
  "empty_body =
     ascii ''{'' @ quoted ''prob_by_goal'' @ ascii '':{},'' @ quoted ''summary'' @
     ascii '':{'' @ quoted ''median_terminal'' @ ascii '':1,'' @ quoted ''p5_terminal'' @
     ascii '':1,'' @ quoted ''p95_terminal'' @ ascii '':1},'' @ quoted ''ptiles_over_time'' @
     ascii '':{'' @ quoted ''p10'' @ ascii '':[],'' @ quoted ''p50'' @ ascii '':[],'' @
     quoted ''p90'' @ ascii '':[]}}''"

definition empty_response :: sim_response where
  "empty_response =
     \<lparr>resp_prob_by_goal = [], resp_median_terminal = Fin 1, resp_p5_terminal = Fin 1,
      resp_p95_terminal = Fin 1, resp_p10 = [], resp_p50 = [], resp_p90 = []\<rparr>"

definition misshapen_body :: jsstring where
  \<comment> \<open>as \<open>empty_body\<close>, with the number 7 where the probabilities by goal belong\<close>
  "misshapen_body =
     ascii ''{'' @ quoted ''prob_by_goal'' @ ascii '':7,'' @ quoted ''summary'' @
     ascii '':{'' @ quoted ''median_terminal'' @ ascii '':1,'' @ quoted ''p5_terminal'' @
     ascii '':1,'' @ quoted ''p95_terminal'' @ ascii '':1},'' @ quoted ''ptiles_over_time'' @
     ascii '':{'' @ quoted ''p10'' @ ascii '':[],'' @ quoted ''p50'' @ ascii '':[],'' @
     quoted ''p90'' @ ascii '':[]}}''"

definition misshapen_value :: jsval where
  "misshapen_value =
     Obj [(ascii ''prob_by_goal'', Num (Fin 7)),
          (ascii ''summary'',
             Obj [(ascii ''median_terminal'', Num (Fin 1)),
                  (ascii ''p5_terminal'', Num (Fin 1)),
                  (ascii ''p95_terminal'', Num (Fin 1))]),
          (ascii ''ptiles_over_time'',
             Obj [(ascii ''p10'', Arr []), (ascii ''p50'', Arr []), (ascii ''p90'', Arr [])])]"

definition two_years :: sim_response where
  \<comment> \<open>25 months: two years, both ends included\<close>
  "two_years =
     \<lparr>resp_prob_by_goal = [], resp_median_terminal = Fin 1, resp_p5_terminal = Fin 1,
      resp_p95_terminal = Fin 1, resp_p10 = replicate 25 (Fin 1),
      resp_p50 = replicate 25 (Fin 2), resp_p90 = replicate 25 (Fin 3)\<rparr>"

section \<open>Evaluating concrete inputs\<close>

text \<open>
  Concrete inputs are evaluated by rewriting with the definitions. Numerals are evaluated
  apart from texts: the facts \<open>literal_...\<close> give the value of the number literals that
  the examples use.
\<close>

lemma floor_rat_numeral_div [simp]:
  "\<lfloor>(numeral a :: rat) / numeral b\<rfloor> = numeral a div numeral b"
  by (metis floor_divide_of_int_eq of_int_numeral)

lemma ceiling_rat_numeral_div [simp]:
  "\<lceil>(numeral a :: rat) / numeral b\<rceil> = - (- numeral a div numeral b)"
  by (metis ceiling_divide_eq_div of_int_numeral)

lemmas number_eval =
  round_double_def ilog2_def compute_floorlog round_half_even_def Let_def signed_zero_def
  signed_inf_def js_mul_def js_div_def is_inf_def is_zero_def Math_round_def
  decimal_literal_def digits_value_def

lemmas text_eval = ascii_def is_digit_def digit_char_def trim_def is_white_space_def

lemmas json_eval =
  json_ws_def is_hex_def hex_value_def escape_char_def scan_fraction_def scan_sign_def
  scan_exponent_def scan_number_def scan_literal_def scan_token_def array_index_def obj_put_def
  start_value_def start_member_def close_container_def parse_step_def JSON_parse_def

lemma literal_0: "decimal_literal False [0x30] [] 0 = Fin 0"
  by (simp add: number_eval)

lemma literal_1: "decimal_literal False [0x31] [] 0 = Fin 1"
  by (simp add: number_eval)

lemma literal_500: "decimal_literal False [0x35, 0x30, 0x30] [] 0 = Fin 500"
  by (simp add: number_eval)

lemmas number_text_eval =
  StringToNumber_def radix_prefix_def scan_point_def scan_sign_def scan_exponent_def
  radix_digit_def radix_value_def

section \<open>White space around a JSON text\<close>

text \<open>
  \<^verbatim>\<open>trim\<close> strips more than JSON allows around a value: it also strips the vertical tab,
  the form feed, the no-break space and the other Unicode spaces. On a text that
  \<^verbatim>\<open>JSON.parse\<close> accepts, trimming changes nothing of the result, since such a text has
  only JSON white space around its tokens.
\<close>

lemma white_space_cases:
  "is_white_space c \<Longrightarrow>
     c = 0x20 \<or> c = 0x09 \<or> c = 0x0A \<or> c = 0x0D \<or> c = 0x0B \<or> c = 0x0C \<or> 0xA0 \<le> c"
  unfolding is_white_space_def
  by (elim disjE conjE) (simp_all add: word_le_nat_alt)

lemma above_ascii:
  assumes "(0xA0 :: code_unit) \<le> c"
  shows "\<not> is_digit c" "\<not> is_hex c" "c \<noteq> 0x22" "c \<noteq> 0x5C" "escape_char c = None"
    "c \<noteq> 0x75" "c \<noteq> 0x2E" "c \<noteq> 0x2D" "c \<noteq> 0x2B" "c \<noteq> 0x65" "c \<noteq> 0x45"
    "c \<noteq> 0x5B" "c \<noteq> 0x5D" "c \<noteq> 0x7B" "c \<noteq> 0x7D" "c \<noteq> 0x3A" "c \<noteq> 0x2C"
    "c \<noteq> 0x6E" "c \<noteq> 0x74" "c \<noteq> 0x66"
proof -
  have ge: "160 \<le> unat c" using assms by (simp add: word_le_nat_alt)
  show "\<not> is_digit c" "\<not> is_hex c"
    using ge by (simp_all add: is_digit_def is_hex_def word_le_nat_alt)
  show "c \<noteq> 0x22" "c \<noteq> 0x5C" "c \<noteq> 0x75" "c \<noteq> 0x2E" "c \<noteq> 0x2D" "c \<noteq> 0x2B" "c \<noteq> 0x65"
    "c \<noteq> 0x45" "c \<noteq> 0x5B" "c \<noteq> 0x5D" "c \<noteq> 0x7B" "c \<noteq> 0x7D" "c \<noteq> 0x3A" "c \<noteq> 0x2C"
    "c \<noteq> 0x6E" "c \<noteq> 0x74" "c \<noteq> 0x66"
    using ge by auto
  have "c \<noteq> 0x2F" "c \<noteq> 0x62" "c \<noteq> 0x72" using ge by auto
  with \<open>c \<noteq> 0x22\<close> \<open>c \<noteq> 0x5C\<close> \<open>c \<noteq> 0x66\<close> \<open>c \<noteq> 0x6E\<close> \<open>c \<noteq> 0x74\<close>
  show "escape_char c = None" by (simp add: escape_char_def)
qed

lemma white_space_no_token:
  assumes "is_white_space c"
  shows "\<not> is_digit c \<and> \<not> is_hex c \<and> c \<noteq> 0x22 \<and> c \<noteq> 0x5C \<and> escape_char c = None
    \<and> c \<noteq> 0x75 \<and> c \<noteq> 0x2E \<and> c \<noteq> 0x2D \<and> c \<noteq> 0x2B \<and> c \<noteq> 0x65 \<and> c \<noteq> 0x45
    \<and> c \<noteq> 0x5B \<and> c \<noteq> 0x5D \<and> c \<noteq> 0x7B \<and> c \<noteq> 0x7D \<and> c \<noteq> 0x3A \<and> c \<noteq> 0x2C
    \<and> c \<noteq> 0x6E \<and> c \<noteq> 0x74 \<and> c \<noteq> 0x66"
proof -
  consider (low) "c = 0x20 \<or> c = 0x09 \<or> c = 0x0A \<or> c = 0x0D \<or> c = 0x0B \<or> c = 0x0C"
    | (high) "0xA0 \<le> c"
    using white_space_cases [OF assms] by blast
  then show ?thesis
  proof cases
    case low
    then show ?thesis
      by (elim disjE) (simp_all add: is_digit_def is_hex_def escape_char_def)
  next
    case high
    then show ?thesis by (simp add: above_ascii)
  qed
qed

lemma white_space_scan_token:
  assumes "is_white_space c"
  shows "scan_token (c # cs) = None"
  using white_space_no_token [OF assms]
  by (simp add: scan_token_def ascii_def)


lemma takeWhile_digit_white_space:
  assumes "\<forall>c\<in>set w. is_white_space c"
  shows "takeWhile is_digit (x @ w) = takeWhile is_digit x"
    and "dropWhile is_digit (x @ w) = dropWhile is_digit x @ w"
proof -
  have w: "takeWhile is_digit w = []" "dropWhile is_digit w = w"
    using assms by (cases w; simp add: white_space_no_token)+
  show "takeWhile is_digit (x @ w) = takeWhile is_digit x"
    by (induction x) (simp_all add: w)
  show "dropWhile is_digit (x @ w) = dropWhile is_digit x @ w"
    by (induction x) (simp_all add: w)
qed

lemma scan_fraction_white_space:
  assumes "\<forall>c\<in>set w. is_white_space c"
  shows "scan_fraction (y @ w) = map_option (\<lambda>(f, r). (f, r @ w)) (scan_fraction y)"
proof (cases y)
  case Nil
  then show ?thesis
    using assms by (cases w) (simp_all add: scan_fraction_def white_space_no_token)
next
  case (Cons c r)
  then show ?thesis
    by (simp add: scan_fraction_def takeWhile_digit_white_space [OF assms])
qed

lemma scan_sign_white_space:
  assumes "\<forall>c\<in>set w. is_white_space c"
  shows "scan_sign (y @ w) = (fst (scan_sign y), snd (scan_sign y) @ w)"
proof (cases y)
  case Nil
  then show ?thesis
    using assms by (cases w) (simp_all add: scan_sign_def white_space_no_token)
next
  case (Cons c r)
  then show ?thesis by (simp add: scan_sign_def)
qed

lemma scan_exponent_white_space:
  assumes "\<forall>c\<in>set w. is_white_space c"
  shows "scan_exponent (y @ w) = map_option (\<lambda>(e, r). (e, r @ w)) (scan_exponent y)"
proof (cases y)
  case Nil
  then show ?thesis
    using assms by (cases w) (simp_all add: scan_exponent_def white_space_no_token)
next
  case (Cons c r)
  then show ?thesis
    by (simp add: scan_exponent_def scan_sign_white_space [OF assms]
        takeWhile_digit_white_space [OF assms] Let_def split: prod.splits)
qed

lemma scan_number_white_space:
  assumes w: "\<forall>c\<in>set w. is_white_space c" and s: "s \<noteq> []"
  shows "scan_number (s @ w) = map_option (\<lambda>(n, r). (n, r @ w)) (scan_number s)"
proof (cases "hd s = of_char (CHR ''-'')")
  case True
  with s show ?thesis
    by (simp add: scan_number_def Let_def takeWhile_digit_white_space [OF w]
        scan_fraction_white_space [OF w] scan_exponent_white_space [OF w]
        split: option.splits)
next
  case False
  with s show ?thesis
    by (simp add: scan_number_def Let_def takeWhile_digit_white_space [OF w]
        scan_fraction_white_space [OF w] scan_exponent_white_space [OF w]
        split: option.splits)
qed

lemma scan_string_only_white_space:
  "\<forall>c\<in>set w. is_white_space c \<Longrightarrow> scan_string w = None"
  by (induction w) (simp_all add: white_space_no_token)


lemma hex4_white_space:
  assumes w: "\<forall>c\<in>set w. is_white_space c"
  shows "(4 \<le> length (r @ w) \<and> list_all is_hex (take 4 (r @ w))) =
         (4 \<le> length r \<and> list_all is_hex (take 4 r))"
proof (cases "4 \<le> length r")
  case True
  then show ?thesis by simp
next
  case False
  have "\<not> list_all is_hex (take 4 (r @ w))" if "4 \<le> length (r @ w)"
  proof -
    from that False obtain c w' where "w = c # w'" by (cases w) auto
    with w have "\<not> is_hex c" by (simp add: white_space_no_token)
    with False \<open>w = c # w'\<close> show ?thesis by (simp add: take_Cons')
  qed
  with False show ?thesis by auto
qed

lemma scan_string_unicode_escape:
  "scan_string (0x5C # of_char (CHR ''u'') # r) =
     (if 4 \<le> length r \<and> list_all is_hex (take 4 r) then
        map_option (\<lambda>(str, rest). (of_nat (radix_value 16 (take 4 r)) # str, rest))
          (scan_string (drop 4 r))
      else None)"
  by simp

lemma scan_string_white_space:
  assumes w: "\<forall>c\<in>set w. is_white_space c"
  shows "scan_string (cs @ w) = map_option (\<lambda>(x, r). (x, r @ w)) (scan_string cs)"
proof (induction cs rule: scan_string.induct)
  case 1
  show ?case by (simp add: scan_string_only_white_space [OF w])
next
  case (2 c cs)
  show ?case
  proof (cases cs)
    case Nil
    with w "2.IH" show ?thesis
      by (cases w) (simp_all add: white_space_no_token scan_string_only_white_space)
  next
    case (Cons e r)
    show ?thesis
    proof (cases "c = 0x22 \<or> (c \<noteq> 0x5C \<and> c < 0x20)")
      case True
      then show ?thesis by auto
    next
      case plain: False
      show ?thesis
      proof (cases "c = 0x5C")
        case False
        with plain "2.IH"(3) show ?thesis
          by (simp add: option.map_comp comp_def case_prod_unfold)
      next
        case bs: True
        show ?thesis
        proof (cases "e = of_char (CHR ''u'')")
          case u: True
          show ?thesis
          proof (cases "4 \<le> length r \<and> list_all is_hex (take 4 r)")
            case True
            with u bs plain Cons "2.IH"(1) [of e r] show ?thesis
              by (simp add: option.map_comp comp_def case_prod_unfold)
          next
            case False
            with hex4_white_space [OF w, of r]
            have "(4 \<le> length (r @ w) \<and> list_all is_hex (take 4 (r @ w))) = False" by simp
            then have "scan_string ((c # cs) @ w) = None"
              by (simp only: Cons u bs append_Cons scan_string_unicode_escape if_False)
            moreover from False have "scan_string (c # cs) = None"
              by (simp only: Cons u bs scan_string_unicode_escape if_False)
            ultimately show ?thesis by simp
          qed
        next
          case False
          with bs plain Cons "2.IH"(2) [of e r] show ?thesis
            by (simp add: option.map_comp comp_def case_prod_unfold split: option.splits)
        qed
      qed
    qed
  qed
qed

lemma take_eq_length: "take n s = lit \<Longrightarrow> length lit = n \<Longrightarrow> n \<le> length s"
proof -
  assume "take n s = lit" "length lit = n"
  then have "length (take n s) = n" by simp
  then show ?thesis by simp
qed

lemma scan_literal_white_space:
  assumes w: "\<forall>c\<in>set w. is_white_space c" and lit: "\<forall>c\<in>set lit. \<not> is_white_space c"
  shows "scan_literal lit t (s @ w) = map_option (\<lambda>(t, r). (t, r @ w)) (scan_literal lit t s)"
proof (cases "length lit \<le> length s")
  case True
  then show ?thesis by (simp add: scan_literal_def)
next
  case False
  have "take (length lit) (s @ w) \<noteq> lit"
  proof
    assume eq: "take (length lit) (s @ w) = lit"
    then have "length lit \<le> length (s @ w)" by (rule take_eq_length) simp
    with False obtain c w' where c: "w = c # w'" by (cases w) auto
    with False have "c \<in> set (take (length lit) (s @ w))" by (simp add: take_Cons')
    with eq lit have "\<not> is_white_space c" by simp
    with w c show False by simp
  qed
  moreover from False have "take (length lit) s \<noteq> lit"
    using take_eq_length [of "length lit" s lit] by blast
  ultimately show ?thesis by (simp add: scan_literal_def del: take_append)
qed

lemma scan_token_white_space:
  assumes w: "\<forall>c\<in>set w. is_white_space c" and s: "s \<noteq> []"
  shows "scan_token (s @ w) = map_option (\<lambda>(t, r). (t, r @ w)) (scan_token s)"
proof -
  obtain c cs where c: "s = c # cs" using s by (cases s) auto
  have free: "\<forall>c\<in>set (ascii ''null''). \<not> is_white_space c"
    "\<forall>c\<in>set (ascii ''true''). \<not> is_white_space c"
    "\<forall>c\<in>set (ascii ''false''). \<not> is_white_space c"
    by (simp_all add: ascii_def is_white_space_def)
  have num:
    "scan_number (d # cs @ w) = map_option (\<lambda>(n, r). (n, r @ w)) (scan_number (d # cs))"
    for d
    using scan_number_white_space [OF w, of "d # cs"] by simp
  have parts:
    "scan_literal lit t (d # cs @ w) = map_option (\<lambda>(t, r). (t, r @ w)) (scan_literal lit t (d # cs))"
    if "\<forall>c\<in>set lit. \<not> is_white_space c" for lit t d
    using scan_literal_white_space [OF w that, of t "d # cs"] by simp
  show ?thesis
    unfolding c scan_token_def append_Cons list.case
    by (simp add: num parts [OF free(1)] parts [OF free(2)] parts [OF free(3)]
        scan_string_white_space [OF w] option.map_comp comp_def case_prod_unfold)
qed

lemma lex_only_white_space:
  "\<forall>c\<in>set w. is_white_space c \<Longrightarrow> lex w = Some ts \<Longrightarrow> ts = []"
  by (induction w) (auto simp: white_space_scan_token split: if_splits)

lemma lex_strip_trailing:
  assumes w: "\<forall>c\<in>set w. is_white_space c"
  shows "lex (u @ w) = Some ts \<Longrightarrow> lex u = Some ts"
proof (induction u arbitrary: ts rule: lex.induct)
  case 1
  then show ?case using lex_only_white_space [OF w] by simp
next
  case (2 c cs)
  show ?case
  proof (cases "json_ws c")
    case True
    with 2 show ?thesis by simp
  next
    case False
    from "2.prems" False obtain t rest ts' where
      tok: "scan_token (c # cs @ w) = Some (t, rest)" and rest: "lex rest = Some ts'"
      and ts: "ts = t # ts'"
      by (auto split: option.splits)
    from tok scan_token_white_space [OF w, of "c # cs"]
    have "map_option (\<lambda>(t, r). (t, r @ w)) (scan_token (c # cs)) = Some (t, rest)" by simp
    then obtain r' where
      tok': "scan_token (c # cs) = Some (t, r')" and r': "rest = r' @ w"
      by (cases "scan_token (c # cs)") auto
    from "2.IH"(2) [OF False tok' refl] rest r' have "lex r' = Some ts'" by simp
    with False tok' ts show ?thesis by simp
  qed
qed

lemma lex_strip_leading: "lex t = Some ts \<Longrightarrow> lex (dropWhile is_white_space t) = Some ts"
proof (induction t)
  case Nil
  then show ?case by simp
next
  case (Cons c cs)
  show ?case
  proof (cases "is_white_space c")
    case False
    with Cons.prems show ?thesis by simp
  next
    case True
    with Cons.prems have "json_ws c" "lex cs = Some ts"
      by (auto simp: white_space_scan_token split: if_splits)
    with Cons.IH True show ?thesis by simp
  qed
qed

lemma lex_trim: "lex t = Some ts \<Longrightarrow> lex (trim t) = Some ts"
proof -
  assume "lex t = Some ts"
  then have lead: "lex (dropWhile is_white_space t) = Some ts" by (rule lex_strip_leading)
  define t1 where "t1 = dropWhile is_white_space t"
  have split: "t1 = trim t @ rev (takeWhile is_white_space (rev t1))"
    by (metis t1_def trim_def rev_append rev_rev_ident takeWhile_dropWhile_id)
  have "\<forall>c\<in>set (rev (takeWhile is_white_space (rev t1))). is_white_space c"
    by (auto dest: set_takeWhileD)
  from lex_strip_trailing [OF this, of "trim t" ts] lead split show ?thesis
    by (simp add: t1_def)
qed

lemma JSON_parse_trim: "JSON_parse t = Some x \<Longrightarrow> JSON_parse (trim t) = Some x"
  by (auto simp: JSON_parse_def lex_trim split: option.splits)

section \<open>Clearing the editor\<close>

text \<open>
  Claim C10. The clear action always succeeds and is idempotent: after one invocation,
  whatever the state before, the stored portfolio is none (\<open>Null\<close>) and the JSON editor is
  the empty string; it shows no alert and logs no error; and invoking it twice in a row
  gives the same state as invoking it once.
\<close>

theorem clear_succeeds_and_is_idempotent:
  "currentPortfolioJSON (clearJsonBtn_click s) = Null
   \<and> jsonInput (clearJsonBtn_click s) = []
   \<and> alerts (clearJsonBtn_click s) = alerts s
   \<and> console_errors (clearJsonBtn_click s) = console_errors s
   \<and> clearJsonBtn_click (clearJsonBtn_click s) = clearJsonBtn_click s
   \<and> run h s [ClearClick, ClearClick] = run h s [ClearClick]"
  by (simp add: clearJsonBtn_click_def run_def)

section \<open>Precondition errors\<close>

text \<open>
  Claim C4. Precondition errors are reported before any request and change nothing else.
  With no file chosen, the parse action only writes the status text (with the error
  style). With no portfolio stored (\<open>Null\<close>, or \<open>Undefined\<close>), the simulate action only
  shows the alert. In both cases the page is otherwise the same: the stored portfolio,
  the summary, the probability block, both charts and the log of requests are unchanged.
\<close>

theorem precondition_errors_change_nothing_else:
  "(docxFile s = None \<longrightarrow>
      parseBtn_click s =
        s\<lparr>parseStatus := (ascii ''Please choose a .docx file'', ascii ''status error'')\<rparr>)
   \<and> (currentPortfolioJSON s = Null \<or> currentPortfolioJSON s = Undefined \<longrightarrow>
      simulateBtn_click h s =
        s\<lparr>alerts := alerts s @ [ascii ''Load a portfolio first (parse or paste JSON).'']\<rparr>)"
  by (auto simp: parseBtn_click_def simulateBtn_click_def setStatus_def alert_def)

theorem precondition_errors_witness:
  "parseBtn_click initial_page =
     initial_page\<lparr>parseStatus := (ascii ''Please choose a .docx file'', ascii ''status error'')\<rparr>
   \<and> simulateBtn_click en_US_host initial_page =
     initial_page\<lparr>alerts := [ascii ''Load a portfolio first (parse or paste JSON).'']\<rparr>
   \<and> fetched (parseBtn_click initial_page) = []
   \<and> fetched (simulateBtn_click en_US_host initial_page) = []"
  using precondition_errors_change_nothing_else [of initial_page en_US_host]
  by (simp add: initial_page_def)

section \<open>The simulate gate\<close>

lemma parse_falsy_texts:
  "JSON_parse (trim (ascii ''0'')) = Some (Num (Fin 0))"
  "JSON_parse (trim (ascii ''false'')) = Some (Bool False)"
  "JSON_parse (trim [0x22, 0x22]) = Some (Str [])"
  "JSON_parse (trim (ascii ''null'')) = Some Null"
  by (simp_all add: text_eval json_eval literal_0)

text \<open>
  Claim C9. The simulate gate tests falsiness, not presence: for every stored value that
  is falsy (among them \<open>null\<close>, \<open>0\<close>, the empty string, \<open>false\<close> and \<open>NaN\<close>) the simulate
  action shows the load-a-portfolio alert, issues no request and changes nothing else;
  and the editor texts \<^verbatim>\<open>0\<close>, \<^verbatim>\<open>false\<close>, \<^verbatim>\<open>""\<close> and \<^verbatim>\<open>null\<close> are accepted by the load
  action with the success notice, storing such a value.
\<close>

theorem falsy_portfolio_is_refused:
  "(\<not> ToBoolean (currentPortfolioJSON s) \<longrightarrow>
      simulateBtn_click h s =
        s\<lparr>alerts := alerts s @ [ascii ''Load a portfolio first (parse or paste JSON).'']\<rparr>)
   \<and> (v \<in> {Null, Num (Fin 0), Str [], Bool False, Num NaN} \<longrightarrow> \<not> ToBoolean v)
   \<and> (t \<in> {ascii ''0'', ascii ''false'', [0x22, 0x22], ascii ''null''} \<longrightarrow>
        alerts (useJsonBtn_click (s\<lparr>jsonInput := t\<rparr>)) =
          alerts s @ [ascii ''Portfolio JSON loaded.'']
        \<and> currentPortfolioJSON (useJsonBtn_click (s\<lparr>jsonInput := t\<rparr>))
            \<in> {Num (Fin 0), Bool False, Str [], Null})"
proof (intro conjI impI)
  assume "\<not> ToBoolean (currentPortfolioJSON s)"
  then show "simulateBtn_click h s =
      s\<lparr>alerts := alerts s @ [ascii ''Load a portfolio first (parse or paste JSON).'']\<rparr>"
    by (simp add: simulateBtn_click_def alert_def)
next
  assume "v \<in> {Null, Num (Fin 0), Str [], Bool False, Num NaN}"
  then show "\<not> ToBoolean v" by auto
next
  assume t: "t \<in> {ascii ''0'', ascii ''false'', [0x22, 0x22], ascii ''null''}"
  then show "alerts (useJsonBtn_click (s\<lparr>jsonInput := t\<rparr>)) =
      alerts s @ [ascii ''Portfolio JSON loaded.'']"
    using parse_falsy_texts by (auto simp: useJsonBtn_click_def alert_def)
  from t show "currentPortfolioJSON (useJsonBtn_click (s\<lparr>jsonInput := t\<rparr>))
      \<in> {Num (Fin 0), Bool False, Str [], Null}"
    using parse_falsy_texts by (auto simp: useJsonBtn_click_def alert_def)
qed

theorem falsy_portfolio_witness:
  "currentPortfolioJSON (run en_US_host initial_page [EditJson (ascii ''0''), UseJsonClick]) = Num (Fin 0)
   \<and> alerts (run en_US_host initial_page [EditJson (ascii ''0''), UseJsonClick, SimulateClick]) =
       [ascii ''Portfolio JSON loaded.'', ascii ''Load a portfolio first (parse or paste JSON).'']
   \<and> fetched (run en_US_host initial_page [EditJson (ascii ''0''), UseJsonClick, SimulateClick]) = []"
proof -
  define s1 where "s1 = useJsonBtn_click (initial_page\<lparr>jsonInput := ascii ''0''\<rparr>)"
  have store: "currentPortfolioJSON s1 = Num (Fin 0)"
    unfolding s1_def using parse_falsy_texts(1) by (simp add: useJsonBtn_click_def alert_def)
  have loaded: "alerts s1 = [ascii ''Portfolio JSON loaded.'']"
    using falsy_portfolio_is_refused [of initial_page en_US_host Null "ascii ''0''"]
    by (simp add: s1_def initial_page_def)
  have fetched: "fetched s1 = []"
    unfolding s1_def using parse_falsy_texts(1)
    by (simp add: useJsonBtn_click_def alert_def initial_page_def)
  have "simulateBtn_click en_US_host s1 =
      s1\<lparr>alerts := alerts s1 @ [ascii ''Load a portfolio first (parse or paste JSON).'']\<rparr>"
    using falsy_portfolio_is_refused [of s1 en_US_host Null "ascii ''0''"] store by simp
  then show ?thesis
    using store loaded fetched by (simp add: run_def s1_def)
qed

section \<open>The numbers of a simulate request\<close>

lemma number_of_500: "StringToNumber (ascii ''500'') = Fin 500"
  by (simp add: number_text_eval text_eval literal_500)

text \<open>
  A valid floating-point number has no white space and no radix prefix, and is neither
  \<^verbatim>\<open>Infinity\<close> nor empty: \<^verbatim>\<open>Number\<close> reads it as a decimal literal, never as \<open>NaN\<close>.
\<close>

lemma round_double_not_NaN: "round_double neg a \<noteq> NaN"
  by (simp add: round_double_def Let_def signed_zero_def signed_inf_def)

lemma decimal_literal_not_NaN: "decimal_literal neg ip fp ex \<noteq> NaN"
  by (simp add: decimal_literal_def round_double_not_NaN)

lemma digit_not_white_space: "is_digit c \<Longrightarrow> \<not> is_white_space c"
  by (auto simp: is_digit_def is_white_space_def word_le_nat_alt word_unat_eq_iff)

lemma float_char_facts:
  assumes "float_char c"
  shows "\<not> is_white_space c" "c \<noteq> of_char (CHR ''x'')" "c \<noteq> of_char (CHR ''X'')"
    "c \<noteq> of_char (CHR ''o'')" "c \<noteq> of_char (CHR ''O'')" "c \<noteq> of_char (CHR ''b'')"
    "c \<noteq> of_char (CHR ''B'')" "c \<noteq> of_char (CHR ''I'')"
  using assms digit_not_white_space [of c]
  by (auto simp: float_char_def is_white_space_def is_digit_def)

lemma digits_float_chars: "\<forall>c\<in>set (takeWhile is_digit s). float_char c"
  by (auto simp: float_char_def dest: set_takeWhileD)

lemma all_digits: "dropWhile is_digit s = [] \<Longrightarrow> \<forall>c\<in>set s. float_char c"
  by (auto simp: float_char_def)

lemma scan_sign_float_chars:
  "scan_sign s = (neg, r) \<Longrightarrow> \<forall>c\<in>set r. float_char c \<Longrightarrow> \<forall>c\<in>set s. float_char c"
  by (auto simp: scan_sign_def float_char_def split: list.splits if_splits)

lemma scan_exponent_float_chars:
  assumes "scan_exponent r = Some (ex, [])"
  shows "\<forall>c\<in>set r. float_char c"
proof (cases r)
  case Nil
  then show ?thesis by simp
next
  case (Cons c r1)
  obtain neg r' where sg: "scan_sign r1 = (neg, r')" by (cases "scan_sign r1")
  from assms Cons sg have c: "c = of_char (CHR ''e'') \<or> c = of_char (CHR ''E'')"
    and d: "dropWhile is_digit r' = []"
    by (auto simp: scan_exponent_def Let_def split: if_splits)
  from scan_sign_float_chars [OF sg all_digits [OF d]] c Cons show ?thesis
    by (auto simp: float_char_def)
qed

lemma scan_fraction_float_chars:
  assumes "scan_fraction s = Some (fp, r)" "\<forall>c\<in>set r. float_char c"
  shows "\<forall>c\<in>set s. float_char c"
proof (cases s)
  case Nil
  then show ?thesis by simp
next
  case (Cons c s1)
  show ?thesis
  proof (cases "c = of_char (CHR ''.'')")
    case True
    with assms Cons have r: "r = dropWhile is_digit s1"
      by (auto simp: scan_fraction_def split: if_splits)
    have "set s1 = set (takeWhile is_digit s1) \<union> set (dropWhile is_digit s1)"
      by (metis set_append takeWhile_dropWhile_id)
    with assms(2) r digits_float_chars [of s1] True Cons show ?thesis
      by (auto simp: float_char_def)
  next
    case False
    with assms Cons show ?thesis by (auto simp: scan_fraction_def)
  qed
qed

lemma scan_fraction_scan_point: "scan_fraction s = Some (fp, r) \<Longrightarrow> scan_point s = (fp, r)"
  by (auto simp: scan_fraction_def scan_point_def split: list.splits if_splits)

lemma no_white_space_trim: "\<forall>c\<in>set s. \<not> is_white_space c \<Longrightarrow> trim s = s"
proof -
  assume a: "\<forall>c\<in>set s. \<not> is_white_space c"
  have "dropWhile is_white_space t = t" if "\<forall>c\<in>set t. \<not> is_white_space c" for t
    using that by (cases t) simp_all
  from this [of s] this [of "rev s"] a show ?thesis by (simp add: trim_def)
qed

lemma valid_float_parts:
  assumes "valid_float v"
  obtains neg u fp r ex where
    "scan_sign v = (neg, u)"
    "scan_fraction (dropWhile is_digit u) = Some (fp, r)"
    "takeWhile is_digit u \<noteq> [] \<or> fp \<noteq> []"
    "scan_exponent r = Some (ex, [])"
proof -
  define u where "u = (case v of [] \<Rightarrow> [] | c # r \<Rightarrow> if c = of_char (CHR ''-'') then r else v)"
  from assms obtain fp r where
    fr: "scan_fraction (dropWhile is_digit u) = Some (fp, r)" and
    some: "takeWhile is_digit u \<noteq> [] \<or> fp \<noteq> []" and
    ex: "case scan_exponent r of Some (ex, []) \<Rightarrow> True | _ \<Rightarrow> False"
    unfolding valid_float_def Let_def u_def [symmetric]
    by (auto split: option.splits)
  have "\<exists>ex'. scan_exponent r = Some (ex', [])"
  proof (cases "scan_exponent r")
    case None
    with ex show ?thesis by simp
  next
    case (Some a)
    with ex show ?thesis by (cases a; cases "snd a") auto
  qed
  then obtain ex' where ex': "scan_exponent r = Some (ex', [])" ..
  have "scan_sign v = (v \<noteq> [] \<and> hd v = of_char (CHR ''-''), u)"
  proof (cases v)
    case Nil
    then show ?thesis by (simp add: scan_sign_def u_def)
  next
    case (Cons c cs)
    show ?thesis
    proof (cases "c = of_char (CHR ''+'')")
      case True
      with Cons have "u = v" by (simp add: u_def)
      with True Cons fr some have False
        by (auto simp: scan_fraction_def is_digit_def)
      then show ?thesis ..
    next
      case False
      with Cons show ?thesis by (simp add: scan_sign_def u_def)
    qed
  qed
  with fr some ex' that show ?thesis by blast
qed

lemma valid_float_chars:
  assumes "valid_float v"
  shows "\<forall>c\<in>set v. float_char c"
proof -
  from assms obtain neg u fp r ex where
    sg: "scan_sign v = (neg, u)" and
    fr: "scan_fraction (dropWhile is_digit u) = Some (fp, r)" and
    ex: "scan_exponent r = Some (ex, [])"
    by (rule valid_float_parts)
  have "\<forall>c\<in>set (dropWhile is_digit u). float_char c"
    using scan_fraction_float_chars [OF fr scan_exponent_float_chars [OF ex]] .
  moreover have "set u = set (takeWhile is_digit u) \<union> set (dropWhile is_digit u)"
    by (metis set_append takeWhile_dropWhile_id)
  ultimately have "\<forall>c\<in>set u. float_char c"
    using digits_float_chars [of u] by auto
  with sg show ?thesis by (rule scan_sign_float_chars)
qed

lemma valid_float_number:
  assumes "valid_float v"
  shows "StringToNumber v \<noteq> NaN"
proof -
  from assms obtain neg u fp r ex where
    sg: "scan_sign v = (neg, u)" and
    fr: "scan_fraction (dropWhile is_digit u) = Some (fp, r)" and
    some: "takeWhile is_digit u \<noteq> [] \<or> fp \<noteq> []" and
    ex: "scan_exponent r = Some (ex, [])"
    by (rule valid_float_parts)
  note chars = valid_float_chars [OF assms]
  have trim: "trim v = v"
    using chars by (intro no_white_space_trim) (auto dest: float_char_facts(1))
  have nonempty: "v \<noteq> []"
    using sg fr some by (auto simp: scan_sign_def scan_fraction_def)
  have radix: "radix_prefix v = None"
  proof (cases v)
    case Nil
    then show ?thesis by (simp add: radix_prefix_def)
  next
    case (Cons z t)
    show ?thesis
    proof (cases t)
      case Nil
      with Cons show ?thesis by (simp add: radix_prefix_def)
    next
      case (Cons p t')
      with \<open>v = z # t\<close> chars have "float_char p" by simp
      from float_char_facts(2-7) [OF this] Cons \<open>v = z # t\<close> show ?thesis
        by (simp add: radix_prefix_def)
    qed
  qed
  have inf: "u \<noteq> ascii ''Infinity''"
  proof
    assume "u = ascii ''Infinity''"
    then have "takeWhile is_digit u = []" "dropWhile is_digit u = ascii ''Infinity''"
      by (simp_all add: ascii_def is_digit_def)
    with fr some show False by (auto simp: scan_fraction_def ascii_def)
  qed
  from trim nonempty radix sg inf some ex scan_fraction_scan_point [OF fr]
  show ?thesis
    by (auto simp: StringToNumber_def Let_def decimal_literal_not_NaN)
qed

lemma number_input_value_number:
  "number_input_value e = [] \<or> StringToNumber (number_input_value e) \<noteq> NaN"
  by (simp add: number_input_value_def valid_float_number)

lemma valid_float_nonempty: "valid_float v \<Longrightarrow> v \<noteq> []"
  by (auto simp: valid_float_def scan_fraction_def)

lemma simulate_request_numbers:
  "ToBoolean (currentPortfolioJSON s) \<Longrightarrow>
     fetched (simulateBtn_click h s) =
       fetched s @
         [Simulate (currentPortfolioJSON s)
            (if nPaths s = [] then Fin 10000 else StringToNumber (nPaths s))
            (if seed s = [] then Fin 42 else StringToNumber (seed s))]"
  by (simp add: simulateBtn_click_def js_or_def bind_result_def fetch_def)

lemma valid_float_examples:
  "\<not> valid_float (ascii ''abc'')" "\<not> valid_float []" "valid_float (ascii ''500'')"
  "valid_float (ascii ''7'')"
  by (simp_all add: valid_float_def scan_fraction_def scan_exponent_def text_eval)

text \<open>
  Claim C2. For every pair of entries in the two numeric inputs, when a portfolio is
  loaded: the request carries \<^verbatim>\<open>n_paths = 10000\<close> if the entry for the path count is absent,
  empty or not a number, and \<^verbatim>\<open>seed = 42\<close> if the entry for the seed is, each independently
  of the other; an entry that is a number is converted by \<^verbatim>\<open>Number\<close> and never gives
  \<open>NaN\<close>. Whenever the value the handler reads is empty or would convert to \<open>NaN\<close>, the
  default is sent.
\<close>

theorem numeric_input_defaults:
  "ToBoolean (currentPortfolioJSON s) \<and> nPaths s = number_input_value e1
     \<and> seed s = number_input_value e2 \<longrightarrow>
     fetched (simulateBtn_click h s) =
       fetched s @
         [Simulate (currentPortfolioJSON s)
            (if valid_float e1 then StringToNumber e1 else Fin 10000)
            (if valid_float e2 then StringToNumber e2 else Fin 42)]
     \<and> (nPaths s = [] \<or> StringToNumber (nPaths s) = NaN \<longrightarrow>
          sent_paths (last (fetched (simulateBtn_click h s))) = Some (Fin 10000))
     \<and> (seed s = [] \<or> StringToNumber (seed s) = NaN \<longrightarrow>
          sent_seed (last (fetched (simulateBtn_click h s))) = Some (Fin 42))
     \<and> (valid_float e1 \<longrightarrow> StringToNumber e1 \<noteq> NaN)
     \<and> (valid_float e2 \<longrightarrow> StringToNumber e2 \<noteq> NaN)"
proof (intro impI)
  assume a: "ToBoolean (currentPortfolioJSON s) \<and> nPaths s = number_input_value e1
     \<and> seed s = number_input_value e2"
  then have req: "fetched (simulateBtn_click h s) =
       fetched s @
         [Simulate (currentPortfolioJSON s)
            (if nPaths s = [] then Fin 10000 else StringToNumber (nPaths s))
            (if seed s = [] then Fin 42 else StringToNumber (seed s))]"
    by (simp add: simulate_request_numbers)
  from a have n: "nPaths s = [] \<or> StringToNumber (nPaths s) \<noteq> NaN"
    and sd: "seed s = [] \<or> StringToNumber (seed s) \<noteq> NaN"
    using number_input_value_number by simp_all
  from a have vals: "nPaths s = (if valid_float e1 then e1 else [])"
    "seed s = (if valid_float e2 then e2 else [])"
    by (simp_all add: number_input_value_def)
  show "fetched (simulateBtn_click h s) =
       fetched s @
         [Simulate (currentPortfolioJSON s)
            (if valid_float e1 then StringToNumber e1 else Fin 10000)
            (if valid_float e2 then StringToNumber e2 else Fin 42)]
     \<and> (nPaths s = [] \<or> StringToNumber (nPaths s) = NaN \<longrightarrow>
          sent_paths (last (fetched (simulateBtn_click h s))) = Some (Fin 10000))
     \<and> (seed s = [] \<or> StringToNumber (seed s) = NaN \<longrightarrow>
          sent_seed (last (fetched (simulateBtn_click h s))) = Some (Fin 42))
     \<and> (valid_float e1 \<longrightarrow> StringToNumber e1 \<noteq> NaN)
     \<and> (valid_float e2 \<longrightarrow> StringToNumber e2 \<noteq> NaN)"
    using n sd vals valid_float_nonempty [of e1] valid_float_nonempty [of e2]
    by (auto simp: req valid_float_number)
qed

theorem numeric_input_defaults_witness:
  "fetched (run en_US_host (initial_page\<lparr>currentPortfolioJSON := Obj []\<rparr>)
      [EditPaths (ascii ''abc''), SimulateClick]) =
     [Simulate (Obj []) (Fin 10000) (Fin 42)]
   \<and> fetched (run en_US_host (initial_page\<lparr>currentPortfolioJSON := Obj []\<rparr>)
      [EditPaths (ascii ''500''), EditSeed (ascii ''abc''), SimulateClick]) =
     [Simulate (Obj []) (Fin 500) (Fin 42)]
   \<and> fetched (run en_US_host (initial_page\<lparr>currentPortfolioJSON := Obj []\<rparr>)
      [EditSeed (ascii ''500''), SimulateClick]) =
     [Simulate (Obj []) (Fin 10000) (Fin 500)]"
  using
    numeric_input_defaults
      [of "run en_US_host (initial_page\<lparr>currentPortfolioJSON := Obj []\<rparr>)
             [EditPaths (ascii ''abc'')]"
          "ascii ''abc''" "[]" en_US_host]
    numeric_input_defaults
      [of "run en_US_host (initial_page\<lparr>currentPortfolioJSON := Obj []\<rparr>)
             [EditPaths (ascii ''500''), EditSeed (ascii ''abc'')]"
          "ascii ''500''" "ascii ''abc''" en_US_host]
    numeric_input_defaults
      [of "run en_US_host (initial_page\<lparr>currentPortfolioJSON := Obj []\<rparr>)
             [EditSeed (ascii ''500'')]"
          "[]" "ascii ''500''" en_US_host]
    valid_float_examples number_of_500
  by (simp add: run_def initial_page_def number_input_value_def)

section \<open>A failed parse attempt\<close>

text \<open>
  Claim C1, as amended. For every parse attempt that fails (network failure, non-success
  status, a body that is not JSON, or the JSON value \<^verbatim>\<open>null\<close>) the parse status becomes
  the generic failure message, with the error style, and the stored portfolio and the
  editor are as before. A JSON body without a \<^verbatim>\<open>portfolio\<close> field is not a failure: the
  stored portfolio becomes \<open>Undefined\<close> and the status reports success.
\<close>

theorem parse_failure_keeps_portfolio:
  "(parse_attempt_throws r \<longrightarrow>
      parseStatus (parseBtn_resume h r s) = (ascii ''Failed to parse document'', ascii ''status error'')
      \<and> currentPortfolioJSON (parseBtn_resume h r s) = currentPortfolioJSON s
      \<and> jsonInput (parseBtn_resume h r s) = jsonInput s)
   \<and> (response_ok st \<and> JSON_parse body = Some (Obj ms) \<and> map_of ms (ascii ''portfolio'') = None \<longrightarrow>
      parseStatus (parseBtn_resume h (Response st body) s) =
        (ascii ''Parsed successfully '' @ [0x2713], ascii ''status'')
      \<and> currentPortfolioJSON (parseBtn_resume h (Response st body) s) = Undefined)"
  by (auto simp: parse_attempt_throws_def parseBtn_resume_def response_json_def bind_result_def
      Get_def setStatus_def console_error_def split: response.splits)

theorem parse_failure_witness:
  "parseStatus (parseBtn_resume en_US_host (Response 500 []) (initial_page\<lparr>currentPortfolioJSON := Obj []\<rparr>))
     = (ascii ''Failed to parse document'', ascii ''status error'')
   \<and> currentPortfolioJSON
       (parseBtn_resume en_US_host (Response 500 []) (initial_page\<lparr>currentPortfolioJSON := Obj []\<rparr>))
     = Obj []
   \<and> currentPortfolioJSON (parseBtn_resume en_US_host NetworkFailure initial_page) = Null"
  using
    parse_failure_keeps_portfolio
      [of "Response 500 []" en_US_host "initial_page\<lparr>currentPortfolioJSON := Obj []\<rparr>"]
    parse_failure_keeps_portfolio [of NetworkFailure en_US_host initial_page]
  by (simp add: parse_attempt_throws_def response_ok_def initial_page_def)

text \<open>
  The claim as stated fails for the body \<^verbatim>\<open>{}\<close>, a JSON body without a \<^verbatim>\<open>portfolio\<close> field:
  the portfolio stored before is replaced by \<open>Undefined\<close> and the status is the success
  message.
\<close>

lemma parse_empty_object: "JSON_parse (ascii ''{}'') = Some (Obj [])"
  by (simp add: text_eval json_eval)

theorem body_without_portfolio_counterexample:
  "JSON_parse (ascii ''{}'') = Some (Obj [])
   \<and> currentPortfolioJSON
       (parseBtn_resume en_US_host (Response 200 (ascii ''{}''))
          (initial_page\<lparr>currentPortfolioJSON := Obj []\<rparr>)) = Undefined
   \<and> parseStatus
       (parseBtn_resume en_US_host (Response 200 (ascii ''{}''))
          (initial_page\<lparr>currentPortfolioJSON := Obj []\<rparr>))
       = (ascii ''Parsed successfully '' @ [0x2713], ascii ''status'')"
  using parse_empty_object
  by (simp add: parseBtn_resume_def response_json_def bind_result_def Get_def setStatus_def
      response_ok_def)

section \<open>Loading the editor text\<close>

lemma parse_padded_object: "JSON_parse (ascii '' {} '') = Some (Obj [])"
  by (simp add: text_eval json_eval)

lemma parse_open_brace: "JSON_parse (trim (ascii ''{'')) = None"
  by (simp add: text_eval json_eval)

lemma parse_nbsp_object:
  "JSON_parse (0xA0 # ascii ''{}'') = None"
  "JSON_parse (trim (0xA0 # ascii ''{}'')) = Some (Obj [])"
  by (simp_all add: text_eval json_eval)

text \<open>
  Claim C5, as amended. For every value \<open>x\<close> denoted by a valid JSON text, loading that
  text stores \<open>x\<close> and shows the success notice, changing nothing else. For every text
  that is not valid JSON once its leading and trailing white space is trimmed, the load
  leaves the stored portfolio (and the rest of the page) unchanged and shows the rejection
  notice.
\<close>

theorem json_load:
  "(JSON_parse t = Some x \<longrightarrow>
      useJsonBtn_click (s\<lparr>jsonInput := t\<rparr>) =
        s\<lparr>jsonInput := t, currentPortfolioJSON := x,
          alerts := alerts s @ [ascii ''Portfolio JSON loaded.'']\<rparr>)
   \<and> (JSON_parse (trim t) = None \<longrightarrow>
      useJsonBtn_click (s\<lparr>jsonInput := t\<rparr>) =
        s\<lparr>jsonInput := t, alerts := alerts s @ [ascii ''Invalid JSON.'']\<rparr>)"
  by (auto simp: useJsonBtn_click_def alert_def dest: JSON_parse_trim)

theorem json_load_witness:
  "useJsonBtn_click (initial_page\<lparr>jsonInput := ascii '' {} ''\<rparr>) =
     initial_page\<lparr>jsonInput := ascii '' {} '', currentPortfolioJSON := Obj [],
       alerts := [ascii ''Portfolio JSON loaded.'']\<rparr>
   \<and> useJsonBtn_click (initial_page\<lparr>jsonInput := ascii ''{'', currentPortfolioJSON := Obj []\<rparr>) =
     initial_page\<lparr>jsonInput := ascii ''{'', currentPortfolioJSON := Obj [],
       alerts := [ascii ''Invalid JSON.'']\<rparr>"
  using json_load [of "ascii '' {} ''" "Obj []" initial_page]
    json_load [of "ascii ''{''" Null "initial_page\<lparr>currentPortfolioJSON := Obj []\<rparr>"]
    parse_padded_object parse_open_brace
  by (simp add: initial_page_def)

text \<open>
  The claim as stated fails for a text that is invalid only by white space that JSON does
  not allow: a no-break space before \<^verbatim>\<open>{}\<close> is rejected by \<^verbatim>\<open>JSON.parse\<close>, and the load
  action (which trims first) stores the empty object with the success notice.
\<close>

theorem invalid_json_loaded_counterexample:
  "JSON_parse (0xA0 # ascii ''{}'') = None
   \<and> useJsonBtn_click (initial_page\<lparr>jsonInput := 0xA0 # ascii ''{}''\<rparr>) =
       initial_page\<lparr>jsonInput := 0xA0 # ascii ''{}'', currentPortfolioJSON := Obj [],
         alerts := [ascii ''Portfolio JSON loaded.'']\<rparr>"
  using parse_nbsp_object
  by (simp add: useJsonBtn_click_def alert_def initial_page_def)

section \<open>Rendering a response of the documented shape\<close>

lemma represents_response_value: "represents (response_value r) r"
  by (simp add: represents_def response_value_def Get_def summary_field_def ptile_def
      bind_result_def ascii_def)

lemma bind_result_simps [simp]:
  "bind_result (Inr x) f = f x"
  "bind_result (Inl e) f = Inl e"
  by (simp_all add: bind_result_def)

lemma map_result_goals:
  "map_result (\<lambda>(k, v). bind_result (percent h v) (\<lambda>p. Inr (f k p)))
       (map (\<lambda>(k, p). (k, Num p)) gs) =
     Inr (map (\<lambda>(k, p). f k (toFixed h 1 (js_mul p (Fin 100)))) gs)"
  by (induction gs) (auto simp: percent_def)

lemma goal_texts_represents:
  assumes "represents d r"
  shows "goal_texts h f d =
    Inr (map (\<lambda>(k, p). f k (toFixed h 1 (js_mul p (Fin 100)))) (resp_prob_by_goal r))"
  using assms
  by (simp add: represents_def goal_texts_def goal_entries_def Object_entries_def
      map_result_goals)

lemma dollars_represents:
  assumes "summary_field d f = Inr (Num x)"
  shows "\<exists>s. Get d (ascii ''summary'') = Inr s \<and> Get s f = Inr (Num x)
    \<and> dollars h s f = Inr (toLocaleString h (Math_round x))"
proof (cases "Get d (ascii ''summary'')")
  case (Inl e)
  with assms show ?thesis by (simp add: summary_field_def)
next
  case (Inr s)
  with assms have "Get s f = Inr (Num x)" by (simp add: summary_field_def)
  with Inr show ?thesis by (simp add: dollars_def)
qed

lemma summary_text_represents:
  assumes "represents d r"
  shows "summary_text h d =
    Inr (join [0x0A]
      (summary_lines
        (join [0x0A] (map (\<lambda>(k, p). goal_line k (toFixed h 1 (js_mul p (Fin 100))))
          (resp_prob_by_goal r)))
        (toLocaleString h (Math_round (resp_median_terminal r)))
        (toLocaleString h (Math_round (resp_p5_terminal r)))
        (toLocaleString h (Math_round (resp_p95_terminal r)))))"
proof -
  from assms have
    m: "summary_field d (ascii ''median_terminal'') = Inr (Num (resp_median_terminal r))" and
    lo: "summary_field d (ascii ''p5_terminal'') = Inr (Num (resp_p5_terminal r))" and
    hi: "summary_field d (ascii ''p95_terminal'') = Inr (Num (resp_p95_terminal r))"
    by (simp_all add: represents_def)
  from dollars_represents [OF m, of h] dollars_represents [OF lo, of h]
    dollars_represents [OF hi, of h]
  show ?thesis
    by (auto simp: summary_text_def goal_texts_represents [OF assms])
qed

lemma terminal_markers_represents:
  assumes "represents d r"
  shows "terminal_markers d =
    Inr [marker 0 (ascii ''P5'') (Num (resp_p5_terminal r)) (ascii ''#aaa''),
         marker 1 (ascii ''Median'') (Num (resp_median_terminal r)) (ascii ''#2196F3''),
         marker 2 (ascii ''P95'') (Num (resp_p95_terminal r)) (ascii ''#aaa'')]"
proof -
  from assms have
    m: "summary_field d (ascii ''median_terminal'') = Inr (Num (resp_median_terminal r))" and
    lo: "summary_field d (ascii ''p5_terminal'') = Inr (Num (resp_p5_terminal r))" and
    hi: "summary_field d (ascii ''p95_terminal'') = Inr (Num (resp_p95_terminal r))"
    by (simp_all add: represents_def)
  from dollars_represents [OF m, of h] dollars_represents [OF lo, of h]
    dollars_represents [OF hi, of h]
  show ?thesis
    by (auto simp: terminal_markers_def)
qed

lemma Array_keys_length:
  "n < 2 ^ 32 \<Longrightarrow> Array_keys (Num (Fin (of_nat n))) = Inr [0..<n]"
proof -
  assume "n < 2 ^ 32"
  then have "(of_nat n :: rat) < of_nat (2 ^ 32)" by (simp only: of_nat_less_iff)
  then show ?thesis by (simp add: Array_keys_def)
qed

lemma fan_traces_represents:
  assumes "represents d r" "length (resp_p50 r) < 2 ^ 32"
  shows "fan_traces h d =
    Inr [traceBand (year_labels h [0..<length (resp_p50 r)]) (Arr (map Num (resp_p90 r))),
         traceBand2 (year_labels h [0..<length (resp_p50 r)]) (Arr (map Num (resp_p10 r))),
         traceMedian (year_labels h [0..<length (resp_p50 r)]) (Arr (map Num (resp_p50 r)))]"
  using assms Array_keys_length [OF assms(2)]
  by (simp add: represents_def fan_traces_def Get_def)

lemma renderResults_represents:
  assumes "represents d r" "length (resp_p50 r) < 2 ^ 32"
  shows "renderResults h d s =
    (s\<lparr>simSummary :=
         join [0x0A]
           (summary_lines
             (join [0x0A] (map (\<lambda>(k, p). goal_line k (toFixed h 1 (js_mul p (Fin 100))))
               (resp_prob_by_goal r)))
             (toLocaleString h (Math_round (resp_median_terminal r)))
             (toLocaleString h (Math_round (resp_p5_terminal r)))
             (toLocaleString h (Math_round (resp_p95_terminal r)))),
       probGoals :=
         join [] (map (\<lambda>(k, p). pill k (toFixed h 1 (js_mul p (Fin 100))))
           (resp_prob_by_goal r)),
       fanChart :=
         Some ([traceBand (year_labels h [0..<length (resp_p50 r)]) (Arr (map Num (resp_p90 r))),
                traceBand2 (year_labels h [0..<length (resp_p50 r)]) (Arr (map Num (resp_p10 r))),
                traceMedian (year_labels h [0..<length (resp_p50 r)]) (Arr (map Num (resp_p50 r)))],
               fan_layout),
       histChart :=
         Some ([marker 0 (ascii ''P5'') (Num (resp_p5_terminal r)) (ascii ''#aaa''),
                marker 1 (ascii ''Median'') (Num (resp_median_terminal r)) (ascii ''#2196F3''),
                marker 2 (ascii ''P95'') (Num (resp_p95_terminal r)) (ascii ''#aaa'')],
               hist_layout)\<rparr>,
     None)"
  by (simp add: renderResults_def summary_text_represents [OF assms(1)] prob_block_def
      goal_texts_represents [OF assms(1)] fan_traces_represents [OF assms]
      terminal_markers_represents [OF assms(1)])

subsection \<open>The formats of the numbers shown\<close>






subsection \<open>The example responses\<close>

lemma literal_7: "decimal_literal False [0x37] [] 0 = Fin 7"
  by (simp add: number_eval)

lemma literal_0823:
  "decimal_literal False [0x30] [0x38, 0x32, 0x33] 0 = Fin (1853231246662959 / 2251799813685248)"
  by (simp add: number_eval)

lemma literal_1234567_4:
  "decimal_literal False [0x31, 0x32, 0x33, 0x34, 0x35, 0x36, 0x37] [0x34] 0 =
     Fin (2651213303853875 / 2147483648)"
  by (simp add: number_eval)

lemma literal_500000:
  "decimal_literal False [0x35, 0x30, 0x30, 0x30, 0x30, 0x30] [] 0 = Fin 500000"
  by (simp add: number_eval)

lemma literal_3000000:
  "decimal_literal False [0x33, 0x30, 0x30, 0x30, 0x30, 0x30, 0x30] [] 0 = Fin 3000000"
  by (simp add: number_eval)

lemmas literals =
  literal_0 literal_1 literal_7 literal_0823 literal_1234567_4 literal_500000 literal_3000000

lemma sample_parsed: "JSON_parse sample_body = Some (response_value sample_response)"
  by (simp add: sample_body_def quoted_def text_eval json_eval literals response_value_def
      sample_response_def)

lemma empty_parsed: "JSON_parse empty_body = Some (response_value empty_response)"
  by (simp add: empty_body_def quoted_def text_eval json_eval literals response_value_def
      empty_response_def)

lemma misshapen_parsed: "JSON_parse misshapen_body = Some misshapen_value"
  by (simp add: misshapen_body_def quoted_def text_eval json_eval literals misshapen_value_def)

lemmas format_eval = toFixed_def fixed_digits_def decimal.simps en_US_def fraction3_def group3.simps

lemma sample_percent:
  "toFixed h 1 (js_mul (Fin (1853231246662959 / 2251799813685248)) (Fin 100)) = ascii ''82.3''"
  by (simp add: number_eval format_eval text_eval)

lemma sample_dollars:
  "en_US (Math_round (Fin (2651213303853875 / 2147483648))) = ascii ''1,234,567''"
  "en_US (Math_round (Fin 500000)) = ascii ''500,000''"
  "en_US (Math_round (Fin 3000000)) = ascii ''3,000,000''"
  "en_US (Math_round (Fin 1)) = ascii ''1''"
  by (simp_all add: number_eval format_eval text_eval)

section \<open>The summary and the probability indicators\<close>




section \<open>The percentile band chart\<close>

lemma months_25:
  "[0..<25] = [0, 1, 2, 3, 4, 5, 6, 7, 8, 9, 10, 11, 12, 13, 14, 15, 16, 17, 18, 19, 20, 21, 22,
     23, 24 :: nat]"
  by (simp add: upt_rec)

lemma years_25:
  "map (\<lambda>i. toFixed h 1 (js_div (Fin (of_nat i)) (Fin 12))) [0..<25] =
     map ascii
       [''0.0'', ''0.1'', ''0.2'', ''0.3'', ''0.3'', ''0.4'', ''0.5'', ''0.6'', ''0.7'', ''0.8'',
        ''0.8'', ''0.9'', ''1.0'', ''1.1'', ''1.2'', ''1.3'', ''1.3'', ''1.4'', ''1.5'', ''1.6'',
        ''1.7'', ''1.8'', ''1.8'', ''1.9'', ''2.0'']"
  unfolding months_25 list.map
  by (simp add: number_eval format_eval text_eval)

text \<open>
  Claim C7. For every SimulationResponse (with fewer than \<open>2^32\<close> months), the chart of
  the percentile bands has three series, in this order: the 90th percentile with a line
  of width 0, the 10th percentile with a line of width 0 and filled to the series before
  it, and the 50th percentile with a line of width 2 and the name \<^verbatim>\<open>Median\<close>. All three
  have the same x-axis: for each index below the length of the 50th percentile series,
  the index divided by 12, formatted by \<^verbatim>\<open>toFixed(1)\<close>. (A series of 25 months gives the
  25 labels from \<^verbatim>\<open>0.0\<close> to \<^verbatim>\<open>2.0\<close>: see the example after the theorem.)
\<close>

theorem percentile_band_chart:
  "represents d r \<and> length (resp_p50 r) < 2 ^ 32 \<longrightarrow>
     (let years = map (\<lambda>i. toFixed h 1 (js_div (Fin (of_nat i)) (Fin 12)))
                    [0..<length (resp_p50 r)];
          traces = [traceBand years (Arr (map Num (resp_p90 r))),
                    traceBand2 years (Arr (map Num (resp_p10 r))),
                    traceMedian years (Arr (map Num (resp_p50 r)))]
      in fanChart (fst (renderResults h d s)) = Some (traces, fan_layout)
         \<and> length years = length (resp_p50 r)
         \<and> map trace_x traces = [years, years, years]
         \<and> map trace_y traces =
             [Arr (map Num (resp_p90 r)), Arr (map Num (resp_p10 r)), Arr (map Num (resp_p50 r))]
         \<and> map line_width traces = [0, 0, 2]
         \<and> map trace_fill traces = [None, Some (ascii ''tonexty''), None]
         \<and> map trace_name traces = [ascii ''90th'', ascii ''10th'', ascii ''Median''])"
proof
  assume a: "represents d r \<and> length (resp_p50 r) < 2 ^ 32"
  note render = renderResults_represents [OF conjunct1 [OF a] conjunct2 [OF a], of h s]
  show "let years = map (\<lambda>i. toFixed h 1 (js_div (Fin (of_nat i)) (Fin 12)))
                    [0..<length (resp_p50 r)];
          traces = [traceBand years (Arr (map Num (resp_p90 r))),
                    traceBand2 years (Arr (map Num (resp_p10 r))),
                    traceMedian years (Arr (map Num (resp_p50 r)))]
      in fanChart (fst (renderResults h d s)) = Some (traces, fan_layout)
         \<and> length years = length (resp_p50 r)
         \<and> map trace_x traces = [years, years, years]
         \<and> map trace_y traces =
             [Arr (map Num (resp_p90 r)), Arr (map Num (resp_p10 r)), Arr (map Num (resp_p50 r))]
         \<and> map line_width traces = [0, 0, 2]
         \<and> map trace_fill traces = [None, Some (ascii ''tonexty''), None]
         \<and> map trace_name traces = [ascii ''90th'', ascii ''10th'', ascii ''Median'']"
    by (simp add: render year_labels_def traceBand_def traceBand2_def traceMedian_def Let_def)
qed

theorem percentile_band_chart_witness:
  "fanChart (fst (renderResults en_US_host (response_value two_years) initial_page)) =
     Some
       ([traceBand
           (map ascii
             [''0.0'', ''0.1'', ''0.2'', ''0.3'', ''0.3'', ''0.4'', ''0.5'', ''0.6'', ''0.7'',
              ''0.8'', ''0.8'', ''0.9'', ''1.0'', ''1.1'', ''1.2'', ''1.3'', ''1.3'', ''1.4'',
              ''1.5'', ''1.6'', ''1.7'', ''1.8'', ''1.8'', ''1.9'', ''2.0''])
           (Arr (replicate 25 (Num (Fin 3)))),
         traceBand2
           (map ascii
             [''0.0'', ''0.1'', ''0.2'', ''0.3'', ''0.3'', ''0.4'', ''0.5'', ''0.6'', ''0.7'',
              ''0.8'', ''0.8'', ''0.9'', ''1.0'', ''1.1'', ''1.2'', ''1.3'', ''1.3'', ''1.4'',
              ''1.5'', ''1.6'', ''1.7'', ''1.8'', ''1.8'', ''1.9'', ''2.0''])
           (Arr (replicate 25 (Num (Fin 1)))),
         traceMedian
           (map ascii
             [''0.0'', ''0.1'', ''0.2'', ''0.3'', ''0.3'', ''0.4'', ''0.5'', ''0.6'', ''0.7'',
              ''0.8'', ''0.8'', ''0.9'', ''1.0'', ''1.1'', ''1.2'', ''1.3'', ''1.3'', ''1.4'',
              ''1.5'', ''1.6'', ''1.7'', ''1.8'', ''1.8'', ''1.9'', ''2.0''])
           (Arr (replicate 25 (Num (Fin 2))))],
        fan_layout)"
proof -
  have shape: "represents (response_value two_years) two_years
      \<and> length (resp_p50 two_years) < 2 ^ 32"
    by (simp add: represents_response_value) (simp add: two_years_def)
  have len: "length (resp_p50 two_years) = 25" by (simp add: two_years_def)
  from percentile_band_chart [of "response_value two_years" two_years en_US_host initial_page]
    shape
  have "fanChart (fst (renderResults en_US_host (response_value two_years) initial_page)) =
      Some
        ([traceBand (map (\<lambda>i. toFixed en_US_host 1 (js_div (Fin (of_nat i)) (Fin 12))) [0..<25])
            (Arr (map Num (resp_p90 two_years))),
          traceBand2 (map (\<lambda>i. toFixed en_US_host 1 (js_div (Fin (of_nat i)) (Fin 12))) [0..<25])
            (Arr (map Num (resp_p10 two_years))),
          traceMedian (map (\<lambda>i. toFixed en_US_host 1 (js_div (Fin (of_nat i)) (Fin 12))) [0..<25])
            (Arr (map Num (resp_p50 two_years)))],
         fan_layout)"
    unfolding len Let_def by blast
  then show ?thesis
    unfolding years_25 by (simp add: two_years_def)
qed

section \<open>A failed simulate attempt\<close>

lemma bind_result_Inr: "bind_result r f = Inr y \<longleftrightarrow> (\<exists>x. r = Inr x \<and> f x = Inr y)"
  by (cases r) simp_all

lemma summary_then_markers:
  assumes "summary_text h d = Inr t"
  shows "\<exists>bars. terminal_markers d = Inr bars"
proof -
  from assms obtain sv m lo hi where sv: "Get d (ascii ''summary'') = Inr sv"
    and m: "dollars h sv (ascii ''median_terminal'') = Inr m"
    and lo: "dollars h sv (ascii ''p5_terminal'') = Inr lo"
    and hi: "dollars h sv (ascii ''p95_terminal'') = Inr hi"
    unfolding summary_text_def bind_result_Inr by blast
  from m obtain x1 where "Get sv (ascii ''median_terminal'') = Inr x1"
    unfolding dollars_def bind_result_Inr by blast
  moreover from lo obtain x2 where "Get sv (ascii ''p5_terminal'') = Inr x2"
    unfolding dollars_def bind_result_Inr by blast
  moreover from hi obtain x3 where "Get sv (ascii ''p95_terminal'') = Inr x3"
    unfolding dollars_def bind_result_Inr by blast
  ultimately show ?thesis using sv by (simp add: terminal_markers_def)
qed

lemma render_throw_keeps_charts:
  assumes "snd (renderResults h d s) \<noteq> None"
  shows "fanChart (fst (renderResults h d s)) = fanChart s
    \<and> histChart (fst (renderResults h d s)) = histChart s"
proof (cases "summary_text h d")
  case (Inl e)
  then show ?thesis by (simp add: renderResults_def)
next
  case summary: (Inr t)
  from summary_then_markers [OF summary] obtain bars where bars: "terminal_markers d = Inr bars"
    by blast
  show ?thesis
  proof (cases "prob_block h d")
    case (Inl e)
    with summary show ?thesis by (simp add: renderResults_def)
  next
    case block: (Inr html)
    show ?thesis
    proof (cases "fan_traces h d")
      case (Inl e)
      with summary block show ?thesis by (simp add: renderResults_def)
    next
      case (Inr traces)
      with summary block bars assms show ?thesis by (simp add: renderResults_def)
    qed
  qed
qed

lemma render_throws_summary:
  "summary_text h d = Inl e \<Longrightarrow> snd (renderResults h d s) \<noteq> None"
  by (simp add: renderResults_def)

lemma nullish_goals_throw:
  assumes "is_nullish (Get d (ascii ''prob_by_goal''))"
  shows "\<exists>e. summary_text h d = Inl e"
proof (cases "Get d (ascii ''prob_by_goal'')")
  case (Inl e)
  then show ?thesis by (simp add: summary_text_def goal_texts_def goal_entries_def)
next
  case (Inr v)
  with assms have "v = Undefined \<or> v = Null" by (simp add: is_nullish_def)
  with Inr show ?thesis
    by (auto simp: summary_text_def goal_texts_def goal_entries_def Object_entries_def)
qed

lemma nullish_summary_throw:
  assumes "is_nullish (Get d (ascii ''summary''))"
  shows "\<exists>e. summary_text h d = Inl e"
proof (cases "goal_texts h goal_line d")
  case (Inl e)
  then show ?thesis by (simp add: summary_text_def)
next
  case goals: (Inr ls)
  show ?thesis
  proof (cases "Get d (ascii ''summary'')")
    case (Inl e)
    with goals show ?thesis by (simp add: summary_text_def)
  next
    case (Inr v)
    with assms have "v = Undefined \<or> v = Null" by (simp add: is_nullish_def)
    with Inr goals show ?thesis
      by (auto simp: summary_text_def dollars_def Get_def)
  qed
qed

lemma Get_Inr_Get: "Get t k = Inr v \<Longrightarrow> \<exists>w. Get t k' = Inr w"
  by (cases t) (simp_all add: Get_def)

lemma nullish_median_series_throw:
  assumes "is_nullish (ptile d (ascii ''p50''))"
  shows "\<exists>e. fan_traces h d = Inl e"
proof (cases "Get d (ascii ''ptiles_over_time'')")
  case (Inl e)
  then show ?thesis by (simp add: fan_traces_def ptile_def)
next
  case (Inr t)
  show ?thesis
  proof (cases "Get t (ascii ''p50'')")
    case (Inl e)
    then have "\<And>k. Get t k = Inl TypeError" by (cases t) (simp_all add: Get_def)
    with Inr show ?thesis by (simp add: fan_traces_def ptile_def)
  next
    case p50: (Inr v)
    with assms Inr have v: "v = Undefined \<or> v = Null" by (simp add: is_nullish_def ptile_def)
    from Get_Inr_Get [OF p50] obtain a where a: "Get t (ascii ''p10'') = Inr a" by blast
    from Get_Inr_Get [OF p50] obtain b where b: "Get t (ascii ''p90'') = Inr b" by blast
    from v Inr p50 a b show ?thesis by (auto simp: fan_traces_def ptile_def Get_def)
  qed
qed

lemma render_throws_traces:
  assumes "fan_traces h d = Inl e"
  shows "snd (renderResults h d s) \<noteq> None"
  using assms by (simp add: renderResults_def Let_def split: sum.splits)

lemma misshapen_rendered:
  "renderResults en_US_host misshapen_value s =
     (s\<lparr>simSummary :=
          ascii ''Goal Probabilities'' @ [0x0A, 0x0A, 0x0A] @ ascii ''Median terminal: $1'' @
          [0x0A] @ ascii ''5th'' @ [0x2013] @ ascii ''95th: $1 '' @ [0x2013] @ ascii '' $1'',
        probGoals := [],
        fanChart :=
          Some ([traceBand [] (Arr []), traceBand2 [] (Arr []), traceMedian [] (Arr [])],
                fan_layout),
        histChart :=
          Some ([marker 0 (ascii ''P5'') (Num (Fin 1)) (ascii ''#aaa''),
                 marker 1 (ascii ''Median'') (Num (Fin 1)) (ascii ''#2196F3''),
                 marker 2 (ascii ''P95'') (Num (Fin 1)) (ascii ''#aaa'')],
                hist_layout)\<rparr>,
      None)"
  using sample_dollars(4)
  by (simp add: renderResults_def summary_text_def goal_texts_def goal_entries_def
      Object_entries_def dollars_def prob_block_def fan_traces_def ptile_def Array_keys_def
      terminal_markers_def misshapen_value_def Get_def summary_lines_def year_labels_def
      en_US_host_def ascii_def)

text \<open>
  Claim C3, as amended. For every simulate attempt that reaches the \<^verbatim>\<open>catch\<close> block, the
  simulation summary is overwritten with \<^verbatim>\<open>Simulation failed.\<close> and neither chart is
  updated: both are exactly as they were before the attempt. An attempt reaches the
  \<^verbatim>\<open>catch\<close> block on a network failure, on a status that is not a success, on a body that
  is not JSON, and on a JSON body on which rendering throws, which it does at least when
  \<^verbatim>\<open>prob_by_goal\<close>, \<^verbatim>\<open>summary\<close> or the series \<^verbatim>\<open>ptiles_over_time.p50\<close> is missing or
  \<^verbatim>\<open>null\<close>.
\<close>

theorem simulate_failure_keeps_charts:
  "(simulate_attempt_throws h r s \<longrightarrow>
      simSummary (simulateBtn_resume h r s) = ascii ''Simulation failed.''
      \<and> fanChart (simulateBtn_resume h r s) = fanChart s
      \<and> histChart (simulateBtn_resume h r s) = histChart s)
   \<and> simulate_attempt_throws h NetworkFailure s
   \<and> (\<not> response_ok st \<longrightarrow> simulate_attempt_throws h (Response st body) s)
   \<and> (JSON_parse body = None \<longrightarrow> simulate_attempt_throws h (Response st body) s)
   \<and> (response_json r = Inr d
        \<and> (is_nullish (Get d (ascii ''prob_by_goal'')) \<or> is_nullish (Get d (ascii ''summary''))
           \<or> is_nullish (ptile d (ascii ''p50''))) \<longrightarrow>
      simulate_attempt_throws h r s)"
proof (intro conjI impI)
  assume throws: "simulate_attempt_throws h r s"
  show "simSummary (simulateBtn_resume h r s) = ascii ''Simulation failed.''"
    using throws
    by (auto simp: simulate_attempt_throws_def simulateBtn_resume_def simulation_failed_def
        console_error_def split: sum.splits prod.splits option.splits)
  show "fanChart (simulateBtn_resume h r s) = fanChart s"
  proof (cases "response_json r")
    case (Inl e)
    then show ?thesis
      by (simp add: simulateBtn_resume_def simulation_failed_def console_error_def)
  next
    case (Inr d)
    with throws have t: "snd (renderResults h d s) \<noteq> None"
      by (simp add: simulate_attempt_throws_def)
    from render_throw_keeps_charts [OF t] t Inr show ?thesis
      by (cases "renderResults h d s")
        (auto simp: simulateBtn_resume_def simulation_failed_def console_error_def)
  qed
  show "histChart (simulateBtn_resume h r s) = histChart s"
  proof (cases "response_json r")
    case (Inl e)
    then show ?thesis
      by (simp add: simulateBtn_resume_def simulation_failed_def console_error_def)
  next
    case (Inr d)
    with throws have t: "snd (renderResults h d s) \<noteq> None"
      by (simp add: simulate_attempt_throws_def)
    from render_throw_keeps_charts [OF t] t Inr show ?thesis
      by (cases "renderResults h d s")
        (auto simp: simulateBtn_resume_def simulation_failed_def console_error_def)
  qed
next
  show "simulate_attempt_throws h NetworkFailure s"
    by (simp add: simulate_attempt_throws_def response_json_def)
next
  assume "\<not> response_ok st"
  then show "simulate_attempt_throws h (Response st body) s"
    by (simp add: simulate_attempt_throws_def response_json_def)
next
  assume "JSON_parse body = None"
  then show "simulate_attempt_throws h (Response st body) s"
    by (simp add: simulate_attempt_throws_def response_json_def)
next
  assume a: "response_json r = Inr d
        \<and> (is_nullish (Get d (ascii ''prob_by_goal'')) \<or> is_nullish (Get d (ascii ''summary''))
           \<or> is_nullish (ptile d (ascii ''p50'')))"
  then have "snd (renderResults h d s) \<noteq> None"
    using nullish_goals_throw [of d h] nullish_summary_throw [of d h]
      nullish_median_series_throw [of d h] render_throws_summary [of h d _ s]
      render_throws_traces [of h d _ s]
    by blast
  with a show "simulate_attempt_throws h r s" by (simp add: simulate_attempt_throws_def)
qed

theorem simulate_failure_witness:
  "simSummary (simulateBtn_resume en_US_host (Response 500 [])
      (simulateBtn_resume en_US_host (Response 200 sample_body) initial_page)) =
     ascii ''Simulation failed.''
   \<and> fanChart (simulateBtn_resume en_US_host (Response 500 [])
      (simulateBtn_resume en_US_host (Response 200 sample_body) initial_page)) =
     fanChart (simulateBtn_resume en_US_host (Response 200 sample_body) initial_page)
   \<and> histChart (simulateBtn_resume en_US_host (Response 500 [])
      (simulateBtn_resume en_US_host (Response 200 sample_body) initial_page)) =
     histChart (simulateBtn_resume en_US_host (Response 200 sample_body) initial_page)
   \<and> simSummary (simulateBtn_resume en_US_host (Response 200 (ascii ''{}'')) initial_page) =
     ascii ''Simulation failed.''
   \<and> fanChart (simulateBtn_resume en_US_host (Response 200 (ascii ''{}'')) initial_page) = None"
proof -
  have parsed: "response_json (Response 200 (ascii ''{}'')) = Inr (Obj [])"
    by (simp add: response_json_def response_ok_def text_eval json_eval)
  have nullish: "is_nullish (Get (Obj []) (ascii ''prob_by_goal''))"
    by (simp add: is_nullish_def Get_def)
  have status: "\<not> response_ok 500" by (simp add: response_ok_def)
  from simulate_failure_keeps_charts
    [of en_US_host "Response 500 []"
      "simulateBtn_resume en_US_host (Response 200 sample_body) initial_page" 500 "[]" "Obj []"]
    simulate_failure_keeps_charts
    [of en_US_host "Response 200 (ascii ''{}'')" initial_page 500 "[]" "Obj []"]
    parsed nullish status
  show ?thesis by (simp add: initial_page_def)
qed

text \<open>
  The claim as stated fails for a malformed body on which rendering does not throw. The
  body \<open>misshapen_body\<close> has the number 7 in the place of the probabilities by goal, so
  it is not a SimulationResponse; it is rendered all the same: the summary is not the
  failure message, and the chart of the response rendered before is replaced.
\<close>

theorem malformed_body_rendered_counterexample:
  "JSON_parse misshapen_body = Some misshapen_value
   \<and> \<not> is_SimulationResponse misshapen_value
   \<and> simSummary (simulateBtn_resume en_US_host (Response 200 misshapen_body)
        (simulateBtn_resume en_US_host (Response 200 sample_body) initial_page)) \<noteq>
      ascii ''Simulation failed.''
   \<and> fanChart (simulateBtn_resume en_US_host (Response 200 misshapen_body)
        (simulateBtn_resume en_US_host (Response 200 sample_body) initial_page)) =
      Some ([traceBand [] (Arr []), traceBand2 [] (Arr []), traceMedian [] (Arr [])], fan_layout)
   \<and> fanChart (simulateBtn_resume en_US_host (Response 200 misshapen_body)
        (simulateBtn_resume en_US_host (Response 200 sample_body) initial_page)) \<noteq>
      fanChart (simulateBtn_resume en_US_host (Response 200 sample_body) initial_page)"
proof -
  have shape: "represents (response_value sample_response) sample_response"
    "length (resp_p50 sample_response) < 2 ^ 32"
    by (simp add: represents_response_value) (simp add: sample_response_def)
  have before:
    "fanChart (simulateBtn_resume en_US_host (Response 200 sample_body) initial_page) =
       Some ([traceBand (year_labels en_US_host [0..<length (resp_p50 sample_response)])
                (Arr (map Num (resp_p90 sample_response))),
              traceBand2 (year_labels en_US_host [0..<length (resp_p50 sample_response)])
                (Arr (map Num (resp_p10 sample_response))),
              traceMedian (year_labels en_US_host [0..<length (resp_p50 sample_response)])
                (Arr (map Num (resp_p50 sample_response)))],
             fan_layout)"
    by (simp add: simulateBtn_resume_def response_json_def response_ok_def sample_parsed
        renderResults_represents [OF shape])
  have after:
    "simulateBtn_resume en_US_host (Response 200 misshapen_body) s =
       fst (renderResults en_US_host misshapen_value s)" for s
    by (simp add: simulateBtn_resume_def response_json_def response_ok_def misshapen_parsed
        misshapen_rendered)
  have shape_no: "\<not> is_SimulationResponse misshapen_value"
    by (simp add: is_SimulationResponse_def misshapen_value_def Get_def ascii_def)
  show ?thesis
    unfolding after before
    using misshapen_parsed shape_no
    by (simp add: misshapen_rendered traceBand_def sample_response_def ascii_def)
qed

section \<open>Two outstanding simulate requests\<close>

lemma render_display_independent:
  assumes "snd (renderResults h d s) = None"
  shows "snd (renderResults h d s') = None
    \<and> display (fst (renderResults h d s')) = display (fst (renderResults h d s))"
  using assms
  by (auto simp: renderResults_def display_def Let_def split: sum.splits)

lemma settled_display:
  assumes "response_json r = Inr d" "snd (renderResults h d s0) = None"
  shows "display (simulateBtn_resume h r s) = display (fst (renderResults h d s0))"
proof -
  from render_display_independent [OF assms(2), of s]
  have "snd (renderResults h d s) = None"
    "display (fst (renderResults h d s)) = display (fst (renderResults h d s0))"
    by simp_all
  with assms(1) show ?thesis
    by (cases "renderResults h d s") (simp add: simulateBtn_resume_def)
qed

lemma click_fetches:
  assumes "ToBoolean (currentPortfolioJSON s)"
  shows "length (fetched (simulateBtn_click h s)) = length (fetched s) + 1
    \<and> currentPortfolioJSON (simulateBtn_click h s) = currentPortfolioJSON s"
  using assms by (simp add: simulateBtn_click_def js_or_def fetch_def)

lemma number_of_7: "StringToNumber (ascii ''7'') = Fin 7"
  by (simp add: number_text_eval text_eval literal_7)

text \<open>
  Claim C8, as amended. When a second simulate click is issued before the first request
  resolves, both requests are outstanding, and each response is rendered as it arrives:
  whatever events \<open>es\<close> came before (the two clicks and the arrival of the other
  response among them), once a response that renders without throwing has arrived, the
  summary, the indicators and the two charts are those of that response. So the response
  that arrives last is the one displayed, whichever request it answers.
\<close>

theorem last_settled_response_wins:
  "(response_json r = Inr d \<and> snd (renderResults h d s0) = None \<longrightarrow>
      display (run h s (es @ [SimulateSettled i r])) = display (fst (renderResults h d s0)))
   \<and> (ToBoolean (currentPortfolioJSON s) \<longrightarrow>
        length (fetched (run h s [SimulateClick, SimulateClick])) = length (fetched s) + 2)"
proof (intro conjI impI)
  assume "response_json r = Inr d \<and> snd (renderResults h d s0) = None"
  then show "display (run h s (es @ [SimulateSettled i r])) =
      display (fst (renderResults h d s0))"
    by (simp add: run_def settled_display)
next
  assume a: "ToBoolean (currentPortfolioJSON s)"
  from click_fetches [OF a, of h]
  have b: "ToBoolean (currentPortfolioJSON (simulateBtn_click h s))"
    and n: "length (fetched (simulateBtn_click h s)) = length (fetched s) + 1"
    using a by simp_all
  from click_fetches [OF b, of h] n
  show "length (fetched (run h s [SimulateClick, SimulateClick])) = length (fetched s) + 2"
    by (simp add: run_def)
qed

theorem last_settled_response_witness:
  "display (run en_US_host (initial_page\<lparr>currentPortfolioJSON := Obj []\<rparr>)
      [SimulateClick, EditSeed (ascii ''7''), SimulateClick,
       SimulateSettled 1 (Response 200 empty_body),
       SimulateSettled 0 (Response 200 sample_body)]) =
     display (fst (renderResults en_US_host (response_value sample_response) initial_page))
   \<and> length (fetched (run en_US_host (initial_page\<lparr>currentPortfolioJSON := Obj []\<rparr>)
        [SimulateClick, SimulateClick])) = 2"
proof -
  have shape: "represents (response_value sample_response) sample_response"
    "length (resp_p50 sample_response) < 2 ^ 32"
    by (simp add: represents_response_value) (simp add: sample_response_def)
  have parsed: "response_json (Response 200 sample_body) = Inr (response_value sample_response)"
    by (simp add: response_json_def response_ok_def sample_parsed)
  have rendered:
    "snd (renderResults en_US_host (response_value sample_response) initial_page) = None"
    by (simp add: renderResults_represents [OF shape])
  from last_settled_response_wins
    [of "Response 200 sample_body" "response_value sample_response" en_US_host initial_page
      "initial_page\<lparr>currentPortfolioJSON := Obj []\<rparr>"
      "[SimulateClick, EditSeed (ascii ''7''), SimulateClick,
        SimulateSettled 1 (Response 200 empty_body)]" 0]
    parsed rendered
  show ?thesis by (simp add: initial_page_def)
qed

text \<open>
  The claim as stated fails when the responses arrive in the reverse order. Two requests
  are issued, the second with seed 7; the response to the second arrives first and is
  rendered, then the response to the first arrives and is rendered over it: the summary
  displayed at the end is that of the first request, not of the most recent one.
\<close>

theorem stale_response_counterexample:
  "fetched (run en_US_host (initial_page\<lparr>currentPortfolioJSON := Obj []\<rparr>)
      [SimulateClick, EditSeed (ascii ''7''), SimulateClick]) =
     [Simulate (Obj []) (Fin 10000) (Fin 42), Simulate (Obj []) (Fin 10000) (Fin 7)]
   \<and> simSummary (run en_US_host (initial_page\<lparr>currentPortfolioJSON := Obj []\<rparr>)
      [SimulateClick, EditSeed (ascii ''7''), SimulateClick,
       SimulateSettled 1 (Response 200 empty_body)]) =
     ascii ''Goal Probabilities'' @ [0x0A, 0x0A, 0x0A] @ ascii ''Median terminal: $1'' @
     [0x0A] @ ascii ''5th'' @ [0x2013] @ ascii ''95th: $1 '' @ [0x2013] @ ascii '' $1''
   \<and> simSummary (run en_US_host (initial_page\<lparr>currentPortfolioJSON := Obj []\<rparr>)
      [SimulateClick, EditSeed (ascii ''7''), SimulateClick,
       SimulateSettled 1 (Response 200 empty_body),
       SimulateSettled 0 (Response 200 sample_body)]) =
     ascii ''Goal Probabilities'' @ [0x0A] @ ascii ''retirement: 82.3%'' @ [0x0A, 0x0A] @
     ascii ''Median terminal: $1,234,567'' @ [0x0A] @
     ascii ''5th'' @ [0x2013] @ ascii ''95th: $500,000 '' @ [0x2013] @ ascii '' $3,000,000''"
proof -
  have shape: "represents (response_value sample_response) sample_response"
    "length (resp_p50 sample_response) < 2 ^ 32"
    by (simp add: represents_response_value) (simp add: sample_response_def)
  have shape0: "represents (response_value empty_response) empty_response"
    "length (resp_p50 empty_response) < 2 ^ 32"
    by (simp add: represents_response_value) (simp add: empty_response_def)
  have later: "simSummary (simulateBtn_resume en_US_host (Response 200 sample_body) s) =
      ascii ''Goal Probabilities'' @ [0x0A] @ ascii ''retirement: 82.3%'' @ [0x0A, 0x0A] @
      ascii ''Median terminal: $1,234,567'' @ [0x0A] @
      ascii ''5th'' @ [0x2013] @ ascii ''95th: $500,000 '' @ [0x2013] @ ascii '' $3,000,000''"
    for s
    using sample_percent [of en_US_host] sample_dollars
    by (simp add: simulateBtn_resume_def response_json_def response_ok_def sample_parsed
        renderResults_represents [OF shape])
      (simp add: sample_response_def summary_lines_def goal_line_def en_US_host_def ascii_def)
  have earlier: "simSummary (simulateBtn_resume en_US_host (Response 200 empty_body) s) =
      ascii ''Goal Probabilities'' @ [0x0A, 0x0A, 0x0A] @ ascii ''Median terminal: $1'' @
      [0x0A] @ ascii ''5th'' @ [0x2013] @ ascii ''95th: $1 '' @ [0x2013] @ ascii '' $1''"
    for s
    using sample_dollars(4)
    by (simp add: simulateBtn_resume_def response_json_def response_ok_def empty_parsed
        renderResults_represents [OF shape0])
      (simp add: empty_response_def summary_lines_def en_US_host_def ascii_def)
  have requests:
    "fetched (run en_US_host (initial_page\<lparr>currentPortfolioJSON := Obj []\<rparr>)
        [SimulateClick, EditSeed (ascii ''7''), SimulateClick]) =
       [Simulate (Obj []) (Fin 10000) (Fin 42), Simulate (Obj []) (Fin 10000) (Fin 7)]"
    using number_of_7 valid_float_examples
    by (simp add: run_def initial_page_def simulateBtn_click_def js_or_def fetch_def
        number_input_value_def ascii_def)
  show ?thesis
    using requests by (simp add: run_def later earlier)
qed

end
